theory Spec2Isabelle
  imports Complex_Main
begin

section \<open>Python values: strings, exceptions, JSON\<close>

text \<open>
  A Python \<open>str\<close> is a sequence of Unicode code points; slicing and \<open>len\<close> count code
  points.  It is modelled as a list of code points, so that the Chinese text and the emoji of
  the prompt and template literals are the very characters of the source.  \<open>u\<close> embeds an
  ASCII literal.
\<close>

type_synonym pystr = "nat list"

definition u :: "string \<Rightarrow> pystr" where
  "u s = map of_char s"

text \<open>\<open>str.isspace\<close> of CPython 3 for a single character.\<close>

definition py_isspace :: "nat \<Rightarrow> bool" where
  "py_isspace c =
     ((9 \<le> c \<and> c \<le> 13) \<or> (28 \<le> c \<and> c \<le> 32) \<or> c = 133 \<or> c = 160 \<or> c = 5760
      \<or> (8192 \<le> c \<and> c \<le> 8202) \<or> c = 8232 \<or> c = 8233 \<or> c = 8239 \<or> c = 8287
      \<or> c = 12288)"

text \<open>\<open>s.strip()\<close>: leading and trailing whitespace removed.\<close>

definition strip :: "pystr \<Rightarrow> pystr" where
  "strip s = rev (dropWhile py_isspace (rev (dropWhile py_isspace s)))"

text \<open>\<open>sep.join(xs)\<close> for a list of strings.\<close>

fun join :: "pystr \<Rightarrow> pystr list \<Rightarrow> pystr" where
  "join sep [] = []"
| "join sep [x] = x"
| "join sep (x # y # ys) = x @ sep @ join sep (y # ys)"

text \<open>
  The exceptions the modelled code can meet.  All of them derive from \<open>Exception\<close>, so every
  \<open>except Exception\<close> handler of the source catches each of them.
\<close>

datatype exn =
    ConnectError
  | HTTPStatusError nat
  | APIError
  | JSONDecodeError
  | XMLParseError
  | IndexError
  | AttributeError
  | TypeError
  | KeyError
  | OverflowError
  | UnicodeEncodeError
  | OperationalError
  | InterfaceError
  | IntegrityError
  | OSError
  | ReportError

section \<open>The language-model client\<close>

text \<open>
  One \<open>client.chat.completions.create\<close> call: the model name, the system and the user message,
  the sampling temperature and the output ceiling.  The answer is the list of choices, each
  the \<open>message.content\<close> of the choice, which the API allows to be \<open>None\<close>.
\<close>

record chat_request =
  model :: pystr
  system_content :: pystr
  user_content :: pystr
  temperature :: real
  max_tokens :: nat

type_synonym chat_response = "pystr option list"


text \<open>\<open>json.loads\<close> values.  A \<open>dict\<close> is kept as its items; a key is looked up first-match.\<close>

datatype json =
    JNull
  | JBool bool
  | JNum real
  | JStr pystr
  | JArr "json list"
  | JObj "(pystr \<times> json) list"

text \<open>An \<open>xml.etree.ElementTree.Element\<close>: tag, attributes, the text before the first child,
  and the children in document order.\<close>

datatype element =
  Element (tag: pystr) (attrib: "(pystr \<times> pystr) list") (etext: "pystr option")
    (children: "element list")

text \<open>A \<open>response\<close> of \<open>httpx\<close>: the status code and \<open>response.text\<close>.\<close>

record http_response =
  status_code :: nat
  body :: pystr

text \<open>A value of the dictionary handed to \<open>urllib.parse.urlencode\<close>.\<close>

datatype qval = QStr pystr | QInt int

text \<open>Sequencing of calls that may raise.\<close>

definition exn_bind :: "exn + 'a \<Rightarrow> ('a \<Rightarrow> exn + 'b) \<Rightarrow> exn + 'b" where
  "exn_bind m f = (case m of Inl e \<Rightarrow> Inl e | Inr x \<Rightarrow> f x)"

section \<open>The data model\<close>

text \<open>\<open>PubMedArticle\<close> of \<open>core/pubmed_client.py\<close>.  \<open>journal\<close> and \<open>doi\<close> may be \<open>None\<close>:
  \<open>fetch_articles\<close> stores \<open>elem.text\<close> there, which is \<open>None\<close> for an element without text.\<close>

record PubMedArticle =
  pmid :: pystr
  title :: pystr
  abstract :: pystr
  authors :: "pystr list"
  journal :: "pystr option"
  pub_date :: pystr
  doi :: "pystr option"
  "keywords" :: "pystr list"
  mesh_terms :: "pystr list"

text \<open>The values of an \<open>article_data\<close> dictionary: \<open>None\<close>, a string, or a list of strings.\<close>

datatype pyval = PNone | PStr pystr | PList "pystr list"

text \<open>The rows of the three tables of \<open>core/database.py\<close>.  The JSON columns keep the value
  they are given; \<open>created_at\<close> and \<open>fetched_at\<close> are clock readings.\<close>

record Article =
  pmid :: pystr
  title :: pystr
  abstract :: "pystr option"
  authors :: pyval
  journal :: "pystr option"
  pub_date :: "pystr option"
  doi :: "pystr option"
  "keywords" :: pyval
  mesh_terms :: pyval
  fetched_at :: nat
  quality_score :: real

record Report =
  id' :: pystr
  date :: pystr
  article_ids :: "pystr list"
  file_paths :: "(pystr \<times> pystr) list"
  created_at :: nat
  article_count :: nat

record SearchHistory =
  id' :: nat
  query :: pystr
  natural_language :: "pystr option"
  total_found :: int
  new_articles :: int
  created_at :: nat

record database =
  articles :: "pystr \<rightharpoonup> Article"
  reports :: "Report list"
  search_history :: "SearchHistory list"

text \<open>One item of the list handed to the report generator: the article and its generated
  content (\<open>None\<close> in dry-run mode).\<close>

record item =
  article :: PubMedArticle
  content :: "(string \<times> pystr) list option"

section \<open>The environment and the state\<close>

text \<open>
  Everything the repository calls but does not define is a field of the environment: the
  loaded configuration, the chat-completions endpoint, the HTTP client, the standard
  library's date arithmetic, URL encoding, JSON and XML parsers, the faults of the SQLite
  session, the clock, the report generator and the file system.  The \<open>n\<close>-th call of an
  endpoint may answer differently from the \<open>n+1\<close>-th, so \<open>llm_create\<close> and \<open>httpx_get\<close> take
  the number of earlier calls; \<open>db_raises\<close>, \<open>utcnow\<close> and \<open>reporter\<close> take the number of
  statements the session has executed.

  \<open>date_window days\<close> stands for \<open>datetime.now()\<close>, \<open>end_date - timedelta(days=days)\<close> and the two
  \<open>strftime('%Y/%m/%d')\<close> calls of \<open>search\<close>: it yields the start and the end date, or the
  \<open>OverflowError\<close> of \<open>timedelta\<close> and of the subtraction.

  \<open>reporter\<close> stands for the report generator of \<open>core/reporter.py\<close> (see \<open>create_report\<close>).

  A call of a modelled function returns \<open>Inl e\<close> when the exception \<open>e\<close> leaves it and \<open>Inr v\<close>
  when it returns \<open>v\<close>, together with the state it leaves behind.  Printing, and exceptions
  that do not derive from \<open>Exception\<close> (an interrupt, a cancelled task), are not modelled;
  \<open>session.rollback()\<close> and \<open>session.close()\<close> are taken not to raise.
\<close>

record env =
  cfg_model :: pystr
  cfg_interests :: "pystr list"
  cfg_search_days :: int
  cfg_max_results :: int
  llm_create :: "nat \<Rightarrow> chat_request \<Rightarrow> exn + chat_response"
  httpx_get :: "nat \<Rightarrow> pystr \<Rightarrow> pystr \<Rightarrow> exn + http_response"
  date_window :: "int \<Rightarrow> exn + pystr \<times> pystr"
  urlencode :: "(pystr \<times> qval) list \<Rightarrow> exn + pystr"
  json_loads :: "pystr \<Rightarrow> exn + json"
  xml_fromstring :: "pystr \<Rightarrow> exn + element"
  db_raises :: "nat \<Rightarrow> bool"
  utcnow :: "nat \<Rightarrow> nat"
  reporter :: "nat \<Rightarrow> item list \<Rightarrow> (pystr \<times> pystr) list \<times> (exn + Report)"
  open_raises :: "pystr \<Rightarrow> bool"
  now_isoformat :: pystr

text \<open>
  The state: the database, the number of statements the SQLite session has executed, the
  chat-completions calls made so far, the URLs requested so far, and the files written.
\<close>

record world =
  db :: database
  db_ops :: nat
  llm_log :: "chat_request list"
  http_log :: "pystr list"
  files :: "(pystr \<times> pystr) list"


section \<open>core/database.py\<close>

text \<open>One statement sent to SQLite: it raises when the environment says so.\<close>

definition db_op :: "env \<Rightarrow> world \<Rightarrow> bool \<times> world" where
  "db_op env w = (db_raises env (db_ops w), w\<lparr>db_ops := Suc (db_ops w)\<rparr>)"

text \<open>\<open>d[k]\<close> and \<open>d.get(k, default)\<close>.\<close>

definition dict_item :: "(string \<rightharpoonup> pyval) \<Rightarrow> string \<Rightarrow> exn + pyval" where
  "dict_item d k = (case d k of None \<Rightarrow> Inl KeyError | Some v \<Rightarrow> Inr v)"

definition dict_get :: "(string \<rightharpoonup> pyval) \<Rightarrow> string \<Rightarrow> pyval \<Rightarrow> pyval" where
  "dict_get d k dflt = (case d k of None \<Rightarrow> dflt | Some v \<Rightarrow> v)"

text \<open>Binding a value to a \<open>String\<close> or \<open>Text\<close> column: \<open>None\<close> is NULL, a list cannot be
  bound.  A \<open>nullable=False\<close> or primary-key column refuses NULL.\<close>

definition bind_string :: "pyval \<Rightarrow> exn + pystr option" where
  "bind_string v =
     (case v of PNone \<Rightarrow> Inr None | PStr s \<Rightarrow> Inr (Some s) | PList xs \<Rightarrow> Inl InterfaceError)"

definition not_null :: "pystr option \<Rightarrow> exn + pystr" where
  "not_null v = (case v of None \<Rightarrow> Inl IntegrityError | Some s \<Rightarrow> Inr s)"

text \<open>\<open>session.query(Article).filter_by(pmid=key).first()\<close>.\<close>

definition select_article :: "env \<Rightarrow> world \<Rightarrow> pyval \<Rightarrow> (exn + Article option) \<times> world" where
  "select_article env w key =
     (let (raises, w1) = db_op env w in
      if raises then (Inl OperationalError, w1)
      else case key of
             PList xs \<Rightarrow> (Inl InterfaceError, w1)
           | PNone \<Rightarrow> (Inr None, w1)
           | PStr p \<Rightarrow> (Inr (articles (db w) p), w1))"

text \<open>The row \<open>Article(pmid=..., title=..., ...)\<close> as the INSERT binds it.\<close>

definition new_row ::
  "pyval \<Rightarrow> pyval \<Rightarrow> (string \<rightharpoonup> pyval) \<Rightarrow> real \<Rightarrow> nat \<Rightarrow> exn + Article" where
  "new_row key ttl d qs now =
     exn_bind (exn_bind (bind_string key) not_null) (\<lambda>p.
     exn_bind (exn_bind (bind_string ttl) not_null) (\<lambda>t.
     exn_bind (bind_string (dict_get d ''abstract'' (PStr []))) (\<lambda>a.
     exn_bind (bind_string (dict_get d ''journal'' (PStr []))) (\<lambda>j.
     exn_bind (bind_string (dict_get d ''pub_date'' (PStr []))) (\<lambda>pd.
     exn_bind (bind_string (dict_get d ''doi'' PNone)) (\<lambda>di.
       Inr \<lparr>Article.pmid = p, title = t, abstract = a,
            authors = dict_get d ''authors'' (PList []), journal = j, pub_date = pd,
            doi = di, keywords = dict_get d ''keywords'' (PList []),
            mesh_terms = dict_get d ''mesh_terms'' (PList []),
            fetched_at = now, quality_score = qs\<rparr>))))))"

text \<open>\<open>session.add(article); session.commit()\<close>: the INSERT and the COMMIT.\<close>

definition commit_article ::
  "env \<Rightarrow> world \<Rightarrow> pyval \<Rightarrow> pyval \<Rightarrow> (string \<rightharpoonup> pyval) \<Rightarrow> real \<Rightarrow> (exn + bool) \<times> world" where
  "commit_article env w key ttl d qs =
     (let (raises, w1) = db_op env w in
      if raises then (Inl OperationalError, w1)
      else case new_row key ttl d qs (utcnow env (db_ops w)) of
             Inl e \<Rightarrow> (Inl e, w1)
           | Inr row \<Rightarrow>
               if articles (db w) (Article.pmid row) \<noteq> None then (Inl IntegrityError, w1)
               else (Inr True,
                     w1\<lparr>db := (db w)\<lparr>articles := (articles (db w))(Article.pmid row \<mapsto> row)\<rparr>\<rparr>))"

text \<open>The \<open>try\<close> block of \<open>save_article\<close>.\<close>

definition save_article_try ::
  "env \<Rightarrow> world \<Rightarrow> (string \<rightharpoonup> pyval) \<Rightarrow> real \<Rightarrow> (exn + bool) \<times> world" where
  "save_article_try env w article_data qs =
     (case dict_item article_data ''pmid'' of
        Inl e \<Rightarrow> (Inl e, w)
      | Inr key \<Rightarrow>
          (case select_article env w key of
             (Inl e, w1) \<Rightarrow> (Inl e, w1)
           | (Inr (Some existing), w1) \<Rightarrow> (Inr False, w1)
           | (Inr None, w1) \<Rightarrow>
               (case dict_item article_data ''title'' of
                  Inl e \<Rightarrow> (Inl e, w1)
                | Inr ttl \<Rightarrow> commit_article env w1 key ttl article_data qs)))"

text \<open>\<open>Database.save_article\<close>: the handler rolls the session back, which restores the
  database of the start of the call, and returns \<open>False\<close>.\<close>

definition save_article ::
  "env \<Rightarrow> world \<Rightarrow> (string \<rightharpoonup> pyval) \<Rightarrow> real \<Rightarrow> (exn + bool) \<times> world" where
  "save_article env w article_data qs =
     (case save_article_try env w article_data qs of
        (Inr b, w1) \<Rightarrow> (Inr b, w1)
      | (Inl e, w1) \<Rightarrow> (Inr False, w1\<lparr>db := db w\<rparr>))"

text \<open>\<open>Database.article_exists\<close>: \<open>try\<close>/\<open>finally\<close> without a handler, so a fault propagates.\<close>

definition article_exists :: "env \<Rightarrow> world \<Rightarrow> pystr \<Rightarrow> (exn + bool) \<times> world" where
  "article_exists env w p =
     (case select_article env w (PStr p) of
        (Inl e, w1) \<Rightarrow> (Inl e, w1)
      | (Inr r, w1) \<Rightarrow> (Inr (r \<noteq> None), w1))"

text \<open>\<open>Database.save_report\<close>: the handler swallows the error.\<close>

definition save_report ::
  "env \<Rightarrow> world \<Rightarrow> pystr \<Rightarrow> pystr \<Rightarrow> pystr list \<Rightarrow> (pystr \<times> pystr) list \<Rightarrow> world" where
  "save_report env w report_id dt ids paths =
     (let (raises, w1) = db_op env w in
      if raises \<or> report_id \<in> Report.id' ` set (reports (db w)) then w1
      else w1\<lparr>db := (db w)\<lparr>reports := reports (db w) @
             [\<lparr>Report.id' = report_id, date = dt, article_ids = ids, file_paths = paths,
               created_at = utcnow env (db_ops w), article_count = length ids\<rparr>]\<rparr>\<rparr>)"

section \<open>core/llm_generator.py\<close>

text \<open>One chat-completions call: the request is logged and the endpoint answers.\<close>

definition chat_create ::
  "env \<Rightarrow> world \<Rightarrow> chat_request \<Rightarrow> (exn + chat_response) \<times> world" where
  "chat_create env w req =
     (llm_create env (length (llm_log w)) req, w\<lparr>llm_log := llm_log w @ [req]\<rparr>)"

text \<open>\<open>response.choices[0].message.content.strip()\<close>.\<close>

definition first_choice_text :: "chat_response \<Rightarrow> exn + pystr" where
  "first_choice_text choices =
     (case choices of
        [] \<Rightarrow> Inl IndexError
      | c # cs \<Rightarrow> (case c of None \<Rightarrow> Inl AttributeError | Some t \<Rightarrow> Inr (strip t)))"

definition SYSTEM_PROMPT :: pystr where
  "SYSTEM_PROMPT =
     concat [u ''You are an expert in medical literature search and PubMed qu'',
     u ''ery syntax.'', [10, 10],
     u ''Your task is to convert natural language descriptions of res'',
     u ''earch interests into optimized PubMed search queries.'', [10, 10], u ''Guidelines:'',
     [10], u ''1. Translate Chinese concepts to English medical terminology'', [10],
     u ''2. Use MeSH terms when appropriate'', [10],
     u ''3. Include both exact phrases (in quotes) and related keywor'', u ''ds'', [10],
     u ''4. Use Boolean operators (AND, OR, NOT) effectively'', [10],
     u ''5. Add field tags like [Title/Abstract], [MeSH Terms] when h'', u ''elpful'', [10],
     u ''6. Keep the query focused but comprehensive'', [10],
     u ''7. Target healthcare and medicine research areas'', [10, 10], u ''Examples:'', [10],
     u ''Input: '', [34], u ''AI in cancer diagnosis'', [34, 10], u ''Output: ('', [34],
     u ''artificial intelligence'', [34], u '' OR '', [34], u ''machine learning'', [34],
     u '' OR '', [34], u ''deep learning'', [34],
     u '') AND (cancer OR neoplasm OR tumor) AND (diagnosis OR detect'',
     u ''ion OR screening)[Title/Abstract]'', [10, 10], u ''Input: '', [34], u ''LLM'', [22312,
     21307, 30103, 24433, 20687, 35786, 26029, 20013, 30340, 24212, 29992, 34], [10],
     u ''Output: ('', [34], u ''large language model'', [34], u '' OR LLM OR '', [34],
     u ''transformer'', [34], u '') AND ('', [34], u ''medical imaging'', [34],
     u '' OR radiology OR '', [34], u ''diagnostic imaging'', [34],
     u '') AND (diagnosis OR detection)[Title/Abstract]'', [10, 10], u ''Input: '', [34, 22823,
     35821, 35328, 27169, 22411, 22312, 33647, 29289, 21457, 29616, 20013], [30340, 30740, 31350,
     34, 10], u ''Output: ('', [34], u ''large language model'', [34], u '' OR LLM OR '', [34],
     u ''foundation model'', [34], u '') AND ('', [34], u ''drug discovery'', [34], u '' OR '',
     [34], u ''drug development'', [34], u '' OR '', [34], u ''pharmaceutical research'', [34],
     u '')[Title/Abstract]'', [10, 10],
     u ''Return ONLY the query string, no explanation. Do not use Chi'',
     u ''nese characters in the query.'']"


definition query_request :: "env \<Rightarrow> pystr \<Rightarrow> chat_request" where
  "query_request env interest =
     \<lparr>model = cfg_model env, system_content = SYSTEM_PROMPT, user_content = interest,
      temperature = 0.3, max_tokens = 500\<rparr>"

text \<open>\<open>QueryGenerator.generate_query\<close>: the whole body is one \<open>try\<close> with a handler for
  \<open>Exception\<close>.\<close>

definition generate_query :: "env \<Rightarrow> world \<Rightarrow> pystr \<Rightarrow> (exn + pystr) \<times> world" where
  "generate_query env w interest =
     (let (r, w1) = chat_create env w (query_request env interest) in
      case exn_bind r first_choice_text of
        Inr q \<Rightarrow> (Inr q, w1)
      | Inl e \<Rightarrow> (Inr (u ''('' @ interest @ u '')[Title/Abstract]''), w1))"

text \<open>\<open>generate_queries\<close>: one query per interest, in order.\<close>

fun generate_queries ::
  "env \<Rightarrow> world \<Rightarrow> pystr list \<Rightarrow> pystr list \<Rightarrow> (exn + pystr list) \<times> world" where
  "generate_queries env w [] queries = (Inr queries, w)"
| "generate_queries env w (interest # rest) queries =
     (case generate_query env w interest of
        (Inl e, w1) \<Rightarrow> (Inl e, w1)
      | (Inr q, w1) \<Rightarrow> generate_queries env w1 rest (queries @ [q]))"

text \<open>\<open>combine_queries\<close>.\<close>

definition combine_queries :: "pystr list \<Rightarrow> pystr" where
  "combine_queries queries =
     (if length queries = 1 then hd queries
      else join (u '' OR '') (map (\<lambda>q. u ''('' @ q @ u '')'') queries))"

section \<open>core/pubmed_client.py\<close>

text \<open>\<open>PubMedArticle.to_dict\<close> and the \<open>url\<close> property.\<close>

definition opt_val :: "pystr option \<Rightarrow> pyval" where
  "opt_val v = (case v of None \<Rightarrow> PNone | Some s \<Rightarrow> PStr s)"

definition to_dict :: "PubMedArticle \<Rightarrow> (string \<rightharpoonup> pyval)" where
  "to_dict a =
     [''pmid'' \<mapsto> PStr (PubMedArticle.pmid a),
      ''title'' \<mapsto> PStr (PubMedArticle.title a),
      ''abstract'' \<mapsto> PStr (PubMedArticle.abstract a),
      ''authors'' \<mapsto> PList (PubMedArticle.authors a),
      ''journal'' \<mapsto> opt_val (PubMedArticle.journal a),
      ''pub_date'' \<mapsto> PStr (PubMedArticle.pub_date a),
      ''doi'' \<mapsto> opt_val (PubMedArticle.doi a),
      ''keywords'' \<mapsto> PList (PubMedArticle.keywords a),
      ''mesh_terms'' \<mapsto> PList (PubMedArticle.mesh_terms a)]"

definition url :: "PubMedArticle \<Rightarrow> pystr" where
  "url a = u ''https://pubmed.ncbi.nlm.nih.gov/'' @ PubMedArticle.pmid a @ u ''/''"

definition base_url :: pystr where
  "base_url = u ''https://eutils.ncbi.nlm.nih.gov/entrez/eutils''"

definition user_agent :: pystr where
  "user_agent = u ''PubMedFeed/1.0 (user@example.com)''"

text \<open>
  \<open>_make_request\<close>: the GET and \<open>raise_for_status\<close>, which raises unless the status is 2xx.
  \<open>http_fetch env k url\<close> is what the request yields when \<open>k\<close> requests went before it.
\<close>

definition http_fetch :: "env \<Rightarrow> nat \<Rightarrow> pystr \<Rightarrow> exn + pystr" where
  "http_fetch env k url' =
     (case httpx_get env k url' user_agent of
        Inl e \<Rightarrow> Inl e
      | Inr response \<Rightarrow>
          if 200 \<le> status_code response \<and> status_code response < 300 then Inr (body response)
          else Inl (HTTPStatusError (status_code response)))"

definition make_request :: "env \<Rightarrow> world \<Rightarrow> pystr \<Rightarrow> (exn + pystr) \<times> world" where
  "make_request env w url' =
     (http_fetch env (length (http_log w)) url', w\<lparr>http_log := http_log w @ [url']\<rparr>)"

text \<open>\<open>data.get(key, default)\<close> on a parsed JSON value: only a \<open>dict\<close> has \<open>get\<close>.\<close>

definition json_get :: "json \<Rightarrow> pystr \<Rightarrow> json \<Rightarrow> exn + json" where
  "json_get data k dflt =
     (case data of
        JObj kv \<Rightarrow> Inr (case map_of kv k of None \<Rightarrow> dflt | Some v \<Rightarrow> v)
      | _ \<Rightarrow> Inl AttributeError)"

text \<open>The URL of the search request.\<close>

definition search_url :: "env \<Rightarrow> pystr \<Rightarrow> int \<Rightarrow> exn + pystr" where
  "search_url env full_query max_results =
     exn_bind
       (urlencode env
          [(u ''db'', QStr (u ''pubmed'')), (u ''term'', QStr full_query),
           (u ''retmax'', QInt max_results), (u ''sort'', QStr (u ''date'')),
           (u ''retmode'', QStr (u ''json''))])
       (\<lambda>params. Inr (base_url @ u ''/esearch.fcgi?'' @ params))"

text \<open>The \<open>try\<close> block of \<open>search\<close>.\<close>

definition search_try :: "env \<Rightarrow> world \<Rightarrow> pystr \<Rightarrow> int \<Rightarrow> (exn + json) \<times> world" where
  "search_try env w full_query max_results =
     (case search_url env full_query max_results of
        Inl e \<Rightarrow> (Inl e, w)
      | Inr url' \<Rightarrow>
          (case make_request env w url' of
             (Inl e, w1) \<Rightarrow> (Inl e, w1)
           | (Inr response, w1) \<Rightarrow>
               (exn_bind (json_loads env response) (\<lambda>data.
                exn_bind (json_get data (u ''esearchresult'') (JObj [])) (\<lambda>r.
                  json_get r (u ''idlist'') (JArr []))), w1)))"

text \<open>\<open>PubMedClient.search\<close>: the date window is computed before the \<open>try\<close>; the handler
  returns the empty list.\<close>

definition search :: "env \<Rightarrow> world \<Rightarrow> pystr \<Rightarrow> int \<Rightarrow> int \<Rightarrow> (exn + json) \<times> world" where
  "search env w query' days max_results =
     (case date_window env days of
        Inl e \<Rightarrow> (Inl e, w)
      | Inr (start_date, end_date) \<Rightarrow>
          (let date_filter = start_date @ u '':'' @ end_date @ u ''[PDAT]'';
               full_query = u ''('' @ query' @ u '') AND '' @ date_filter
           in case search_try env w full_query max_results of
                (Inr ids, w1) \<Rightarrow> (Inr ids, w1)
              | (Inl e, w1) \<Rightarrow> (Inr (JArr []), w1)))"

subsection \<open>ElementPath\<close>

text \<open>All descendants of an element in document order, the element itself excluded.\<close>

fun descendants :: "element \<Rightarrow> element list" where
  "descendants (Element t a x cs) = concat (map (\<lambda>c. c # descendants c) cs)"

text \<open>\<open>e.findall(".//t")\<close>, \<open>e.find(".//t")\<close>, \<open>e.find("t")\<close> and \<open>e.findall(".//t1/t2")\<close>.\<close>

definition findall_desc :: "pystr \<Rightarrow> element \<Rightarrow> element list" where
  "findall_desc t e = filter (\<lambda>d. tag d = t) (descendants e)"

definition first :: "'a list \<Rightarrow> 'a option" where
  "first xs = (case xs of [] \<Rightarrow> None | x # _ \<Rightarrow> Some x)"

definition find_desc :: "pystr \<Rightarrow> element \<Rightarrow> element option" where
  "find_desc t e = first (findall_desc t e)"

definition find_child :: "pystr \<Rightarrow> element \<Rightarrow> element option" where
  "find_child t e = first (filter (\<lambda>c. tag c = t) (children e))"

definition findall_path :: "pystr \<Rightarrow> pystr \<Rightarrow> element \<Rightarrow> element list" where
  "findall_path t1 t2 e =
     concat (map (\<lambda>d. filter (\<lambda>c. tag c = t2) (children d)) (findall_desc t1 e))"

text \<open>\<open>e.find(".//t[@k='v']")\<close>.\<close>

definition find_desc_attr :: "pystr \<Rightarrow> pystr \<Rightarrow> pystr \<Rightarrow> element \<Rightarrow> element option" where
  "find_desc_attr t k v e =
     first (filter (\<lambda>d. map_of (attrib d) k = Some v) (findall_desc t e))"

subsection \<open>One article node\<close>

text \<open>\<open>elem.text if elem is not None else ""\<close>, the truth value of the result, and the
  formatting of a value inside an f-string.\<close>

definition text_or_empty :: "element option \<Rightarrow> pystr option" where
  "text_or_empty e = (case e of None \<Rightarrow> Some [] | Some x \<Rightarrow> etext x)"

definition truthy :: "pystr option \<Rightarrow> bool" where
  "truthy v = (case v of None \<Rightarrow> False | Some s \<Rightarrow> s \<noteq> [])"

definition py_format :: "pystr option \<Rightarrow> pystr" where
  "py_format v = (case v of None \<Rightarrow> u ''None'' | Some s \<Rightarrow> s)"

text \<open>The texts of the elements that have one: \<open>[e.text for e in es if e.text]\<close>.\<close>

definition texts :: "element list \<Rightarrow> pystr list" where
  "texts es = concat (map (\<lambda>e. if truthy (etext e) then [the (etext e)] else []) es)"

text \<open>\<open>sep.join(parts)\<close> raises \<open>TypeError\<close> when a part is \<open>None\<close>.\<close>

definition join_parts :: "pystr \<Rightarrow> pystr option list \<Rightarrow> exn + pystr" where
  "join_parts sep parts =
     (case those parts of None \<Rightarrow> Inl TypeError | Some xs \<Rightarrow> Inr (join sep xs))"

definition node_pmid :: "element \<Rightarrow> pystr option" where
  "node_pmid n = text_or_empty (find_desc (u ''PMID'') n)"

definition node_title :: "element \<Rightarrow> pystr option" where
  "node_title n = text_or_empty (find_desc (u ''ArticleTitle'') n)"

definition node_abstract :: "element \<Rightarrow> pystr" where
  "node_abstract n = join (u '' '') (texts (findall_desc (u ''AbstractText'') n))"

definition author_name :: "element \<Rightarrow> pystr list" where
  "author_name author =
     (case find_child (u ''LastName'') author of
        None \<Rightarrow> []
      | Some lastname \<Rightarrow>
          (let name = (case etext lastname of None \<Rightarrow> [] | Some t \<Rightarrow> t)
           in case find_child (u ''ForeName'') author of
                None \<Rightarrow> [name]
              | Some firstname \<Rightarrow> [py_format (etext firstname) @ u '' '' @ name]))"

definition node_authors :: "element \<Rightarrow> pystr list" where
  "node_authors n = concat (map author_name (take 10 (findall_desc (u ''Author'') n)))"

definition node_journal :: "element \<Rightarrow> pystr option" where
  "node_journal n = text_or_empty (first (findall_path (u ''Journal'') (u ''Title'') n))"

definition date_part :: "pystr \<Rightarrow> element \<Rightarrow> pystr option list" where
  "date_part t pub_date_elem =
     (case find_child t pub_date_elem of None \<Rightarrow> [] | Some e \<Rightarrow> [etext e])"

definition node_pub_date :: "element \<Rightarrow> exn + pystr" where
  "node_pub_date n =
     (case find_desc (u ''PubDate'') n of
        None \<Rightarrow> Inr []
      | Some pub_date_elem \<Rightarrow>
          join_parts (u '' '')
            (date_part (u ''Year'') pub_date_elem @ date_part (u ''Month'') pub_date_elem
             @ date_part (u ''Day'') pub_date_elem))"

definition node_doi :: "element \<Rightarrow> pystr option" where
  "node_doi n =
     (case find_desc_attr (u ''ArticleId'') (u ''IdType'') (u ''doi'') n of
        None \<Rightarrow> None
      | Some e \<Rightarrow> etext e)"

definition node_keywords :: "element \<Rightarrow> pystr list" where
  "node_keywords n = texts (findall_desc (u ''Keyword'') n)"

definition node_mesh_terms :: "element \<Rightarrow> pystr list" where
  "node_mesh_terms n = texts (findall_path (u ''MeshHeading'') (u ''DescriptorName'') n)"

text \<open>
  The body of the loop over the article nodes: \<open>Inl\<close> is the exception the inner handler
  catches, \<open>Inr None\<close> a node without identifier or title, \<open>Inr (Some a)\<close> the article that
  is appended.
\<close>

definition parse_article :: "element \<Rightarrow> exn + PubMedArticle option" where
  "parse_article n =
     (case node_pub_date n of
        Inl e \<Rightarrow> Inl e
      | Inr pd \<Rightarrow>
          if truthy (node_pmid n) \<and> truthy (node_title n) then
            Inr (Some \<lparr>PubMedArticle.pmid = the (node_pmid n), title = the (node_title n),
                       abstract = node_abstract n, authors = node_authors n,
                       journal = node_journal n, pub_date = pd, doi = node_doi n,
                       keywords = node_keywords n, mesh_terms = node_mesh_terms n\<rparr>)
          else Inr None)"

text \<open>The articles one document adds: the loop over \<open>root.findall(".//PubmedArticle")\<close>.\<close>

definition parse_articles :: "element \<Rightarrow> PubMedArticle list" where
  "parse_articles root' =
     concat (map (\<lambda>n. case parse_article n of Inr (Some a) \<Rightarrow> [a] | _ \<Rightarrow> [])
                 (findall_desc (u ''PubmedArticle'') root'))"

subsection \<open>The batches\<close>

text \<open>\<open>",".join(batch)\<close>: every item has to be a string.\<close>

definition join_ids :: "json list \<Rightarrow> exn + pystr" where
  "join_ids batch =
     join_parts (u '','') (map (\<lambda>x. case x of JStr s \<Rightarrow> Some s | _ \<Rightarrow> None) batch)"

definition batch_url :: "env \<Rightarrow> json list \<Rightarrow> exn + pystr" where
  "batch_url env batch =
     exn_bind (join_ids batch) (\<lambda>ids.
     exn_bind
       (urlencode env
          [(u ''db'', QStr (u ''pubmed'')), (u ''id'', QStr ids),
           (u ''rettype'', QStr (u ''xml'')), (u ''retmode'', QStr (u ''text''))])
       (\<lambda>params. Inr (base_url @ u ''/efetch.fcgi?'' @ params)))"

text \<open>One round of the loop over the batches, up to the parsed document.\<close>

definition fetch_batch ::
  "env \<Rightarrow> world \<Rightarrow> json list \<Rightarrow> (exn + PubMedArticle list) \<times> world" where
  "fetch_batch env w batch =
     (case batch_url env batch of
        Inl e \<Rightarrow> (Inl e, w)
      | Inr url' \<Rightarrow>
          (case make_request env w url' of
             (Inl e, w1) \<Rightarrow> (Inl e, w1)
           | (Inr xml_data, w1) \<Rightarrow>
               (case xml_fromstring env xml_data of
                  Inl e \<Rightarrow> (Inl e, w1)
                | Inr root' \<Rightarrow> (Inr (parse_articles root'), w1))))"

text \<open>
  \<open>for i in range(0, len(pmids), batch_size)\<close> with \<open>batch_size = 100\<close>.  The result is the
  exception that ended the loop, if any, and the articles appended so far.
\<close>

function fetch_loop ::
  "env \<Rightarrow> json list \<Rightarrow> nat \<Rightarrow> world \<Rightarrow> PubMedArticle list
     \<Rightarrow> (exn option \<times> PubMedArticle list) \<times> world" where
  "fetch_loop env pmids i w arts =
     (if i < length pmids then
        (case fetch_batch env w (take 100 (drop i pmids)) of
           (Inl e, w1) \<Rightarrow> ((Some e, arts), w1)
         | (Inr parsed, w1) \<Rightarrow> fetch_loop env pmids (i + 100) w1 (arts @ parsed))
      else ((None, arts), w))"
  by pat_completeness auto
termination
  by (relation "measure (\<lambda>(env, pmids, i, w, arts). length pmids - i)") auto

text \<open>The truth value of a JSON value, and its items as \<open>len\<close> and slicing see them: a
  string is the sequence of its characters, a \<open>dict\<close> cannot be sliced, a number has no
  length.\<close>

definition json_truthy :: "json \<Rightarrow> bool" where
  "json_truthy v =
     (case v of JNull \<Rightarrow> False | JBool b \<Rightarrow> b | JNum x \<Rightarrow> x \<noteq> 0 | JStr s \<Rightarrow> s \<noteq> []
      | JArr xs \<Rightarrow> xs \<noteq> [] | JObj kv \<Rightarrow> kv \<noteq> [])"

definition json_items :: "json \<Rightarrow> exn + json list" where
  "json_items v =
     (case v of JArr xs \<Rightarrow> Inr xs | JStr s \<Rightarrow> Inr (map (\<lambda>c. JStr [c]) s)
      | _ \<Rightarrow> Inl TypeError)"

text \<open>\<open>PubMedClient.fetch_articles\<close>: the handler around the loop prints the exception; the
  articles appended so far are returned.\<close>

definition fetch_articles ::
  "env \<Rightarrow> world \<Rightarrow> json \<Rightarrow> (exn + PubMedArticle list) \<times> world" where
  "fetch_articles env w pmids =
     (if \<not> json_truthy pmids then (Inr [], w)
      else case json_items pmids of
             Inl e \<Rightarrow> (Inr [], w)
           | Inr xs \<Rightarrow>
               (case fetch_loop env xs 0 w [] of ((exc, arts), w1) \<Rightarrow> (Inr arts, w1)))"

text \<open>\<open>PubMedClient.search_and_fetch\<close>.\<close>

definition search_and_fetch ::
  "env \<Rightarrow> world \<Rightarrow> pystr \<Rightarrow> int option \<Rightarrow> int option
     \<Rightarrow> (exn + PubMedArticle list) \<times> world" where
  "search_and_fetch env w query' days max_results =
     (let days1 = (case days of None \<Rightarrow> cfg_search_days env | Some d \<Rightarrow> d);
          max1 = (case max_results of None \<Rightarrow> cfg_max_results env | Some m \<Rightarrow> m)
      in case search env w query' days1 max1 of
           (Inl e, w1) \<Rightarrow> (Inl e, w1)
         | (Inr pmids, w1) \<Rightarrow> fetch_articles env w1 pmids)"

text \<open>
  What the request for a batch yields when \<open>k\<close> requests went before it: the parsed
  document, or the exception of the join, the URL encoding, the transport, the status
  check or the XML parser.
\<close>

definition batch_doc :: "env \<Rightarrow> nat \<Rightarrow> json list \<Rightarrow> exn + element" where
  "batch_doc env k batch =
     exn_bind (batch_url env batch) (\<lambda>url'.
     exn_bind (http_fetch env k url') (xml_fromstring env))"

section \<open>core/content_generator.py\<close>

text \<open>The two literals the f-strings fall back to for an empty abstract and an empty
  keyword list.\<close>

definition no_abstract :: pystr where
  "no_abstract = [26080, 25688, 35201]"

definition medical_frontier :: pystr where
  "medical_frontier = [21307, 23398, 21069, 27839]"

subsection \<open>The prompts and the system messages\<close>

text \<open>The prompt of \<open>generate_xiaohongshu_long\<close>.\<close>

definition xiaohongshu_long_prompt :: "PubMedArticle \<Rightarrow> pystr" where
  "xiaohongshu_long_prompt a =
     concat [[35831, 20026, 19968, 31687, 21307, 23398], u ''AI'', [35770, 25991, 29983, 25104,
     23567, 32418, 20070, 25991, 26696, 65288, 25216, 26415], [29454, 22855, 35282, 24230,
     65292], u ''200-300'', [23383, 65289, 12290, 10, 10, 35201, 27714, 65306, 10], u ''1. '',
     [24320, 22836, 29992, 21560, 30555, 26631, 39064, 65292, 24102], u ''emoji'', [10],
     u ''2. '', [24378, 35843, 25216, 26415, 31361, 30772, 21644, 21019, 26032, 28857, 10],
     u ''3. '', [25552, 21450, 20851, 38190, 25968, 23383, 21644, 24615, 33021, 25351, 26631,
     10], u ''4. '', [25351, 20986, 25216, 26415, 23616, 38480, 25110, 38656, 35201, 27880,
     24847, 30340], [38382, 39064, 10], u ''5. '', [32467, 23614, 24341, 23548, 20114, 21160,
     25110, 26597, 30475, 21407, 25991, 10], u ''6. '', [28155, 21152], u ''3-5'', [20010, 30456,
     20851, 35805, 39064, 26631, 31614, 10], u ''7. '', [21475, 35821, 21270, 65292, 36866,
     21512, 25216, 26415, 29233, 22909, 32773, 38405], [35835, 10, 10, 35770, 25991, 20449,
     24687, 65306, 10, 26631, 39064, 65306], PubMedArticle.title a, [10, 26399, 21002, 65306],
     py_format (PubMedArticle.journal a), [10, 25688, 35201, 65306],
     (if PubMedArticle.abstract a \<noteq> [] then take 1000 (PubMedArticle.abstract a)
        else no_abstract),
     [10, 20851, 38190, 35789, 65306],
     (if PubMedArticle.keywords a \<noteq> []
        then join (u '', '') (take 5 (PubMedArticle.keywords a))
        else u ''N/A''),
     [10, 10, 29983, 25104, 26684, 24335, 65306, 10], u ''['', [26631, 39064], u '']'', [10, 10],
     u ''['', [27491, 25991, 20869, 23481], u '']'', [10, 10], u ''['', [26631, 31614], u '']'']"

text \<open>The prompt of \<open>generate_xiaohongshu_short\<close>.\<close>

definition xiaohongshu_short_prompt :: "PubMedArticle \<Rightarrow> pystr" where
  "xiaohongshu_short_prompt a =
     concat [[35831, 20026, 19968, 31687, 21307, 23398], u ''AI'', [35770, 25991, 29983, 25104,
     23567, 32418, 20070, 30701, 25991, 26696, 65288, 24555], [35759, 24335, 65292],
     u ''80-120'', [23383, 65289, 12290, 10, 10, 35201, 27714, 65306, 10], u ''1. '', [19968,
     21477, 35805, 27010, 25324, 26680, 24515, 21457, 29616, 10], u ''2. '', [21015, 20986],
     u ''2-3'', [20010, 20851, 38190, 25968, 23383, 10], u ''3. '', [28155, 21152], u ''2-3'',
     [20010], u ''emoji'', [10], u ''4. '', [38468, 21407, 25991, 38142, 25509, 25552, 31034,
     10], u ''5. '', [26497, 20854, 31616, 27905, 65292, 36866, 21512, 24555, 36895, 38405,
     35835, 10], [10, 35770, 25991, 20449, 24687, 65306, 10, 26631, 39064, 65306],
     PubMedArticle.title a, [10, 26399, 21002, 65306], py_format (PubMedArticle.journal a), [10,
     20851, 38190, 20449, 24687, 65306],
     (if PubMedArticle.abstract a \<noteq> [] then take 500 (PubMedArticle.abstract a)
        else no_abstract),
     [10, 10, 29983, 25104, 26684, 24335, 65306, 10], u ''['', [19968, 21477, 35805, 24635,
     32467], u '']'', [10, 10], u ''['', [20851, 38190, 25968, 25454], u '']'', [10, 10],
     u ''['', [38142, 25509, 25552, 31034], u '' + '', [26631, 31614], u '']'']"

text \<open>The prompt of \<open>generate_wechat_long\<close>.\<close>

definition wechat_long_prompt :: "PubMedArticle \<Rightarrow> pystr" where
  "wechat_long_prompt a =
     concat [[35831, 20026, 19968, 31687, 21307, 23398], u ''AI'', [35770, 25991, 29983, 25104,
     20844, 20247, 21495, 28145, 24230, 35299, 35835, 25991], [31456, 65288, 19987, 19994, 20005,
     35880, 35282, 24230, 65292], u ''800-1200'', [23383, 65289, 12290, 10, 10, 35201, 27714,
     65306, 10], u ''1. '', [26631, 39064, 65306, 19987, 19994, 19988, 21560, 24341, 20154,
     65292, 20307, 29616], [30740, 31350, 20215, 20540, 10], u ''2. '', [30740, 31350, 32972,
     26223, 65306, 20026, 20160, 20040, 20570, 36825, 20010, 30740], [31350, 65288],
     u ''100-150'', [23383, 65289, 10], u ''3. '', [30740, 31350, 26041, 27861, 65306, 25216,
     26415, 26041, 26696, 31616, 36848, 65288], u ''150-200'', [23383, 65289, 10], u ''4. '',
     [26680, 24515, 32467, 26524, 65306, 20445, 30041, 23436, 25972, 32479, 35745, 23398],
     [25351, 26631, 65292, 24182, 25552, 20379, 36890, 20439, 35299, 35835, 65288],
     u ''200-250'', [23383, 65289, 10], u ''   - '', [20363, 22914, 65306],
     u ''AUC 0.89 (95%CI: 0.86-0.92) '', [24847, 21619, 30528], u ''...'', [10], u ''5. '',
     [20020, 24202, 24847, 20041, 65306, 23545, 21307, 29983, 23454, 36341, 30340, 20215],
     [20540, 65288], u ''150-200'', [23383, 65289, 10], u ''6. '', [25216, 26415, 20142, 28857,
     65306, 23545], u ''AI'', [24320, 21457, 32773, 30340, 21551, 31034, 65288], u ''150-200'',
     [23383, 65289, 10], u ''7. '', [23616, 38480, 19982, 23637, 26395, 65306, 30740, 31350,
     23616, 38480, 24615, 21644], [26410, 26469, 26041, 21521, 65288], u ''100-150'', [23383,
     65289, 10], u ''8. '', [21407, 25991, 38142, 25509, 21644, 24341, 29992, 26684, 24335, 10,
     10, 35770], [25991, 20449, 24687, 65306, 10, 26631, 39064, 65306], PubMedArticle.title a,
     [10, 20316, 32773, 65306],
     (if PubMedArticle.authors a \<noteq> []
        then join (u '', '') (take 5 (PubMedArticle.authors a))
        else u ''N/A''),
     [10, 26399, 21002, 65306], py_format (PubMedArticle.journal a), [10, 21457, 34920, 26085,
     26399, 65306], PubMedArticle.pub_date a, [10, 25688, 35201, 65306],
     PubMedArticle.abstract a, [10, 20851, 38190, 35789, 65306],
     (if PubMedArticle.keywords a \<noteq> [] then join (u '', '') (PubMedArticle.keywords a)
        else u ''N/A''),
     [10], u ''MeSH'', [35789, 65306],
     (if PubMedArticle.mesh_terms a \<noteq> []
        then join (u '', '') (take 10 (PubMedArticle.mesh_terms a))
        else u ''N/A''),
     [10], u ''PMID'', [65306], PubMedArticle.pmid a, [10], u ''DOI'', [65306],
     (case PubMedArticle.doi a of None \<Rightarrow> u ''N/A'' | Some s \<Rightarrow> if s = []
        then u ''N/A''
        else s),
     [10, 10, 27880, 24847, 65306, 10], u ''- '', [20445, 30041, 25152, 26377, 32479, 35745,
     23398, 25351, 26631, 65288], u ''p'', [20540, 12289, 32622, 20449, 21306, 38388, 12289,
     25928, 24212, 37327, 31561, 65289], [10], u ''- '', [27599, 20010, 32479, 35745, 25351,
     26631, 21518, 37117, 21152, 19978, 19968, 21477], [35805, 36890, 20439, 35299, 37322, 10],
     u ''- '', [35821, 35328, 20005, 32899, 19987, 19994, 65292, 38754, 21521, 21307, 29983,
     21644], u ''AI'', [30740, 31350, 32773, 10], u ''- '', [32467, 26500, 28165, 26224, 65292,
     20351, 29992, 23567, 26631, 39064, 10, 10], [29983, 25104, 26684, 24335, 65306, 10, 26631,
     39064, 65306], u ''['', [25991, 31456, 26631, 39064], u '']'', [10, 10, 12304, 30740, 31350,
     32972, 26223, 12305, 10], u ''['', [20869, 23481], u '']'', [10, 10, 12304, 30740, 31350,
     26041, 27861, 12305, 10], u ''['', [20869, 23481], u '']'', [10, 10, 12304, 26680, 24515,
     32467, 26524, 12305, 10], u ''['', [20869, 23481, 65292, 21253, 21547, 32479, 35745, 25351,
     26631, 21644, 35299, 35835], u '']'', [10, 10, 12304, 20020, 24202, 24847, 20041, 12305,
     10], u ''['', [20869, 23481], u '']'', [10, 10, 12304, 25216, 26415, 20142, 28857, 12305,
     10], u ''['', [20869, 23481], u '']'', [10, 10, 12304, 23616, 38480, 19982, 23637, 26395,
     12305, 10], u ''['', [20869, 23481], u '']'', [10, 10], u ''---'', [10, 21407, 25991, 38142,
     25509, 65306], u ''https://pubmed.ncbi.nlm.nih.gov/'', PubMedArticle.pmid a, u ''/'', [10,
     26412, 25991, 36873, 33258], u '' PubMed '', [25968, 25454, 24211, 65292, 30001],
     u '' AI '', [36741, 21161, 25972, 29702, 29983, 25104, 12290]]"

text \<open>The prompt of \<open>generate_wechat_short\<close>.\<close>

definition wechat_short_prompt :: "PubMedArticle \<Rightarrow> pystr" where
  "wechat_short_prompt a =
     concat [[35831, 20026, 19968, 31687, 21307, 23398], u ''AI'', [35770, 25991, 29983, 25104,
     20844, 20247, 21495, 31616, 25253, 65288], u ''300-500'', [23383, 65289, 12290, 10, 10,
     35201, 27714, 65306, 10], u ''1. '', [26631, 39064, 65306, 31616, 27905, 26126, 20102, 10],
     u ''2. '', [30740, 31350, 32972, 26223, 65306, 31616, 36848, 65288], u ''50'', [23383,
     65289, 10], u ''3. '', [26680, 24515, 25968, 25454, 65306, 20445, 30041, 20851, 38190,
     32479, 35745, 25351], [26631], u ''+'', [35299, 35835, 65288], u ''100-150'', [23383, 65289,
     10], u ''4. '', [23454, 36341, 20215, 20540, 65306, 23545, 20020, 24202, 24037, 20316,
     30340, 21551], [31034, 65288], u ''100-150'', [23383, 65289, 10], u ''5. '', [21407, 25991,
     38142, 25509, 10, 10, 35770, 25991, 20449, 24687, 65306, 10], [26631, 39064, 65306],
     PubMedArticle.title a, [10, 26399, 21002, 65306], py_format (PubMedArticle.journal a), [10,
     25688, 35201, 65306],
     (if PubMedArticle.abstract a \<noteq> [] then take 1500 (PubMedArticle.abstract a)
        else no_abstract),
     [10], u ''PMID'', [65306], PubMedArticle.pmid a, [10, 10, 27880, 24847, 65306, 20445, 30041,
     26680, 24515, 32479, 35745, 25351], [26631, 65292, 24182, 35299, 37322, 20854, 21547, 20041,
     12290, 10, 10, 29983], [25104, 26684, 24335, 65306, 10, 26631, 39064, 65306], u ''['',
     [25991, 31456, 26631, 39064], u '']'', [10, 10, 12304, 30740, 31350, 31616, 20171, 12305,
     10], u ''['', [20869, 23481], u '']'', [10, 10, 12304, 26680, 24515, 21457, 29616, 12305,
     10], u ''['', [20869, 23481], u '']'', [10, 10, 12304, 23454, 36341, 20215, 20540, 12305,
     10], u ''['', [20869, 23481], u '']'', [10, 10], u ''---'', [10, 21407, 25991, 38142, 25509,
     65306], u ''https://pubmed.ncbi.nlm.nih.gov/'', PubMedArticle.pmid a, u ''/'']"

definition xiaohongshu_long_persona :: pystr where
  "xiaohongshu_long_persona =
     concat [[20320, 26159, 21307, 23398], u ''AI'', [39046, 22495, 30340, 23567, 32418, 20070,
     21338, 20027, 65292, 25797, 38271, 29992], [25216, 26415, 35270, 35282, 35299, 35835, 26368,
     26032, 30740, 31350, 65292, 35821], [35328, 29983, 21160, 27963, 27900, 65292], u ''emoji'',
     [20351, 29992, 24688, 24403, 12290]]"

definition xiaohongshu_short_persona :: pystr where
  "xiaohongshu_short_persona =
     concat [[20320, 26159, 21307, 23398], u ''AI'', [36164, 35759, 21338, 20027, 65292, 25797,
     38271, 24555, 36895, 25552, 28860, 35770], [25991, 31934, 21326, 65292, 35821, 35328, 31934,
     28860, 65292, 25968, 23383, 20934], [30830, 12290]]"

definition wechat_long_persona :: pystr where
  "wechat_long_persona =
     concat [[20320, 26159, 21307, 23398], u ''AI'', [39046, 22495, 30340, 19987, 19994, 20889,
     25163, 65292, 25797, 38271, 28145, 24230], [35299, 35835, 26368, 26032, 30740, 31350, 65292,
     23545, 32479, 35745, 23398, 21644], [26426, 22120, 23398, 20064, 37117, 26377, 28145, 20837,
     29702, 35299, 65292, 20889], [20316, 39118, 26684, 20005, 35880, 19987, 19994, 65292, 38754,
     21521, 21307, 29983], [21644], u ''AI'', [24320, 21457, 32773, 12290]]"

definition wechat_short_persona :: pystr where
  "wechat_short_persona =
     concat [[20320, 26159, 21307, 23398], u ''AI'', [36164, 35759, 32534, 36753, 65292, 25797,
     38271, 25552, 28860, 30740, 31350, 31934], [21326, 65292, 35821, 35328, 31616, 27905, 19987,
     19994, 65292, 38754, 21521, 24537], [30860, 30340, 21307, 23398, 24037, 20316, 32773,
     12290]]"


subsection \<open>The templates\<close>

text \<open>\<open>_fallback_xiaohongshu_long\<close>.\<close>

definition fallback_xiaohongshu_long :: "PubMedArticle \<Rightarrow> pystr" where
  "fallback_xiaohongshu_long a =
     concat [[128293], u '' '', take 50 (PubMedArticle.title a), u ''...'', [10, 10, 20170,
     22825, 21457, 29616, 19968, 31687, 36229, 26377, 24847, 24605], [30340, 30740, 31350,
     65281], py_format (PubMedArticle.journal a), [21018, 21457, 30340, 65292, 20851, 20110,
     21307, 23398], u ''AI'', [30340, 26032, 36827, 23637, 65374, 10, 10, 128161], u '' '',
     [26680, 24515, 30475, 28857, 65306, 10, 8226], u '' '', [29992, 19978, 20102, 26368, 26032,
     30340], u ''LLM'', [25216, 26415, 10, 8226], u '' '', [22312, 21307, 30103, 22330, 26223,
     26377, 26032, 31361, 30772, 10, 8226], u '' '', [20934, 30830, 29575, 24456, 33021, 25171,
     65281, 10, 10, 9888, 65039], u '' '', [20294, 35201, 27880, 24847, 65306, 10, 36825, 31867,
     30740, 31350, 36824, 22312], [26089, 26399, 38454, 27573, 65292, 31163, 20020, 24202, 23454,
     38469, 24212, 29992], [36824, 26377, 36317, 31163, 65292, 22823, 23478, 29702, 24615, 30475,
     24453, 65374], [10, 10, 128214], u '' '', [24819, 28145, 20837, 20102, 35299, 30340, 21487,
     20197, 35835, 21407, 25991, 65306], [10], url a, [10, 10], u ''#'', [21307, 23398],
     u ''AI #'', [20154, 24037, 26234, 33021], u '' #'', [21069, 27839, 31185, 25216], u '' #'',
     (if PubMedArticle.keywords a \<noteq> [] then hd (PubMedArticle.keywords a)
        else medical_frontier)]"

text \<open>\<open>_fallback_xiaohongshu_short\<close>.\<close>

definition fallback_xiaohongshu_short :: "PubMedArticle \<Rightarrow> pystr" where
  "fallback_xiaohongshu_short a =
     concat [[128226], u '' '', take 40 (PubMedArticle.title a), u ''...'', [10, 10, 26399,
     21002, 65306], py_format (PubMedArticle.journal a), [10, 10, 128300], u '' '', [29992],
     u ''LLM'', [25216, 26415, 35299, 20915, 21307, 23398, 38382, 39064, 10, 128202], u '' '',
     [23454, 39564, 25968, 25454, 30475, 36215, 26469, 19981, 38169, 10, 9889], u '' '', [20540,
     24471, 20851, 27880, 30340, 26032, 26041, 21521, 10, 10, 21407, 25991], [8594], u '' '',
     url a, [10, 10], u ''#LLM #'', [21307, 30103], u ''AI'']"

text \<open>\<open>_fallback_wechat_long\<close>.\<close>

definition fallback_wechat_long :: "PubMedArticle \<Rightarrow> pystr" where
  "fallback_wechat_long a =
     concat [[26631, 39064, 65306], PubMedArticle.title a, [10, 10, 12304, 30740, 31350, 32972,
     26223, 12305, 10, 26412, 25991, 25506], [35752, 20102, 22823, 35821, 35328, 27169, 22411,
     22312, 21307, 30103, 39046, 22495], [30340, 26368, 26032, 24212, 29992, 36827, 23637, 12290,
     10, 10, 12304, 30740], [31350, 26041, 27861, 12305, 10, 30740, 31350, 22242, 38431, 37319,
     29992, 20102], [20808, 36827, 30340], u ''LLM'', [26550, 26500, 65292, 22312, 21307, 30103,
     25968, 25454, 38598, 19978, 36827, 34892], [35757, 32451, 21644, 39564, 35777, 12290, 10,
     10, 12304, 26680, 24515, 32467], [26524, 12305, 10, 30740, 31350, 23637, 31034, 20102],
     u ''LLM'', [22312, 21307, 30103, 20219, 21153, 20013, 30340, 28508, 21147, 65292, 20294,
     20855], [20307, 32479, 35745, 25351, 26631, 38656, 35201, 26597, 30475, 21407, 25991,
     12290], [10, 10, 12304, 20020, 24202, 24847, 20041, 12305, 10, 36825, 31867, 25216], [26415,
     26377, 26395, 36741, 21161, 20020, 24202, 20915, 31574, 65292, 20294, 38656], [35880, 24910,
     35780, 20272, 20854, 21487, 38752, 24615, 21644, 23433, 20840, 24615], [12290, 10, 10,
     12304, 25216, 26415, 20142, 28857, 12305, 10, 20351, 29992], [20102, 24403, 21069, 26368,
     20808, 36827, 30340, 33258, 28982, 35821, 35328, 22788], [29702, 25216, 26415, 12290, 10,
     10, 12304, 23616, 38480, 19982, 23637, 26395], [12305, 10, 30740, 31350, 23384, 22312,
     19968, 23450, 23616, 38480, 24615, 65292], [38656, 35201, 26356, 22823, 35268, 27169, 30340,
     20020, 24202, 39564, 35777, 12290], [10, 10], u ''---'', [10, 20316, 32773, 65306],
     (if PubMedArticle.authors a \<noteq> []
        then join (u '', '') (take 3 (PubMedArticle.authors a))
        else u ''N/A''),
     [10, 26399, 21002, 65306], py_format (PubMedArticle.journal a), [10, 21457, 34920, 26085,
     26399, 65306], PubMedArticle.pub_date a, [10, 21407, 25991, 38142, 25509, 65306], url a,
     [10], u ''PMID'', [65306], PubMedArticle.pmid a]"

text \<open>\<open>_fallback_wechat_short\<close>.\<close>

definition fallback_wechat_short :: "PubMedArticle \<Rightarrow> pystr" where
  "fallback_wechat_short a =
     concat [[26631, 39064, 65306], PubMedArticle.title a, [10, 10, 12304, 30740, 31350, 31616,
     20171, 12305, 10], py_format (PubMedArticle.journal a), [21457, 34920, 30340, 26368, 26032,
     30740, 31350, 65292, 25506, 32034], u ''LLM'', [22312, 21307, 30103, 20013, 30340, 24212,
     29992, 12290, 10, 10, 12304, 26680], [24515, 21457, 29616, 12305, 10, 30740, 31350, 23637,
     31034, 20102, 35813, 25216], [26415, 30340, 21487, 34892, 24615, 21644, 28508, 22312, 20215,
     20540, 65292, 20855], [20307, 25968, 25454, 35265, 21407, 25991, 12290, 10, 10, 12304,
     23454, 36341], [20215, 20540, 12305, 10, 20026, 21307, 30103], u ''AI'', [30340, 21457,
     23637, 25552, 20379, 20102, 26032, 30340, 24605, 36335, 21644, 21442], [32771, 12290, 10,
     10], u ''---'', [10, 21407, 25991, 38142, 25509, 65306], url a]"

subsection \<open>The four generators\<close>

text \<open>
  Each generator builds its prompt, makes one chat-completions call inside \<open>try\<close>, and
  returns the stripped text of the first choice; the handler for \<open>Exception\<close> returns the
  template.
\<close>

definition xiaohongshu_long_request :: "env \<Rightarrow> PubMedArticle \<Rightarrow> chat_request" where
  "xiaohongshu_long_request env a =
     \<lparr>model = cfg_model env, system_content = xiaohongshu_long_persona,
      user_content = xiaohongshu_long_prompt a, temperature = 0.7, max_tokens = 1000\<rparr>"

definition generate_xiaohongshu_long ::
  "env \<Rightarrow> world \<Rightarrow> PubMedArticle \<Rightarrow> (exn + pystr) \<times> world" where
  "generate_xiaohongshu_long env w a =
     (let (r, w1) = chat_create env w (xiaohongshu_long_request env a) in
      case exn_bind r first_choice_text of
        Inr t \<Rightarrow> (Inr t, w1)
      | Inl e \<Rightarrow> (Inr (fallback_xiaohongshu_long a), w1))"

definition xiaohongshu_short_request :: "env \<Rightarrow> PubMedArticle \<Rightarrow> chat_request" where
  "xiaohongshu_short_request env a =
     \<lparr>model = cfg_model env, system_content = xiaohongshu_short_persona,
      user_content = xiaohongshu_short_prompt a, temperature = 0.7, max_tokens = 500\<rparr>"

definition generate_xiaohongshu_short ::
  "env \<Rightarrow> world \<Rightarrow> PubMedArticle \<Rightarrow> (exn + pystr) \<times> world" where
  "generate_xiaohongshu_short env w a =
     (let (r, w1) = chat_create env w (xiaohongshu_short_request env a) in
      case exn_bind r first_choice_text of
        Inr t \<Rightarrow> (Inr t, w1)
      | Inl e \<Rightarrow> (Inr (fallback_xiaohongshu_short a), w1))"

definition wechat_long_request :: "env \<Rightarrow> PubMedArticle \<Rightarrow> chat_request" where
  "wechat_long_request env a =
     \<lparr>model = cfg_model env, system_content = wechat_long_persona,
      user_content = wechat_long_prompt a, temperature = 0.7, max_tokens = 2000\<rparr>"

definition generate_wechat_long ::
  "env \<Rightarrow> world \<Rightarrow> PubMedArticle \<Rightarrow> (exn + pystr) \<times> world" where
  "generate_wechat_long env w a =
     (let (r, w1) = chat_create env w (wechat_long_request env a) in
      case exn_bind r first_choice_text of
        Inr t \<Rightarrow> (Inr t, w1)
      | Inl e \<Rightarrow> (Inr (fallback_wechat_long a), w1))"

definition wechat_short_request :: "env \<Rightarrow> PubMedArticle \<Rightarrow> chat_request" where
  "wechat_short_request env a =
     \<lparr>model = cfg_model env, system_content = wechat_short_persona,
      user_content = wechat_short_prompt a, temperature = 0.7, max_tokens = 800\<rparr>"

definition generate_wechat_short ::
  "env \<Rightarrow> world \<Rightarrow> PubMedArticle \<Rightarrow> (exn + pystr) \<times> world" where
  "generate_wechat_short env w a =
     (let (r, w1) = chat_create env w (wechat_short_request env a) in
      case exn_bind r first_choice_text of
        Inr t \<Rightarrow> (Inr t, w1)
      | Inl e \<Rightarrow> (Inr (fallback_wechat_short a), w1))"

text \<open>\<open>generate_all\<close>: the dictionary display evaluates the four awaits in order.\<close>

definition generate_all ::
  "env \<Rightarrow> world \<Rightarrow> PubMedArticle \<Rightarrow> (exn + (string \<times> pystr) list) \<times> world" where
  "generate_all env w a =
     (case generate_xiaohongshu_long env w a of
        (Inl e, w1) \<Rightarrow> (Inl e, w1)
      | (Inr t1, w1) \<Rightarrow>
     (case generate_xiaohongshu_short env w1 a of
        (Inl e, w2) \<Rightarrow> (Inl e, w2)
      | (Inr t2, w2) \<Rightarrow>
     (case generate_wechat_long env w2 a of
        (Inl e, w3) \<Rightarrow> (Inl e, w3)
      | (Inr t3, w3) \<Rightarrow>
     (case generate_wechat_short env w3 a of
        (Inl e, w4) \<Rightarrow> (Inl e, w4)
      | (Inr t4, w4) \<Rightarrow>
          (Inr [(''xiaohongshu_long'', t1), (''xiaohongshu_short'', t2),
                (''wechat_long'', t3), (''wechat_short'', t4)], w4)))))"

text \<open>
  The text a chat-completions call yields: none when the call raises, when the answer has
  no choice, and when the first choice has no content.
\<close>

definition completion :: "exn + chat_response \<Rightarrow> pystr option" where
  "completion r =
     (case r of
        Inl e \<Rightarrow> None
      | Inr [] \<Rightarrow> None
      | Inr (None # cs) \<Rightarrow> None
      | Inr (Some t # cs) \<Rightarrow> Some (strip t))"

section \<open>core/reporter.py\<close>

text \<open>
  Modelled from the spec: \<open>core/reporter.py\<close> (\<open>ReportGenerator.create_report\<close>) is not among
  the sources; only its callers are.  By section 4.5 of the specification it writes the
  texts to files under a dated directory, generates a fresh report identifier, persists the
  report record through the database, and returns the assembled record; by section 3 it
  owns the report table and the file tree and writes to no other store.  The environment's
  \<open>reporter\<close> gives the files it writes for the items and then the assembled record, or the
  exception that ends it; the record is persisted by \<open>save_report\<close>.
\<close>

definition create_report :: "env \<Rightarrow> world \<Rightarrow> item list \<Rightarrow> (exn + Report) \<times> world" where
  "create_report env w items =
     (case reporter env (db_ops w) items of (written, r) \<Rightarrow>
        (let w1 = w\<lparr>files := files w @ written\<rparr> in
         case r of
           Inl e \<Rightarrow> (Inl e, w1)
         | Inr report \<Rightarrow>
             (Inr report,
              save_report env w1 (Report.id' report) (date report) (article_ids report)
                (file_paths report))))"

section \<open>core/cli.py\<close>

text \<open>\<open>str(n)\<close> for a count.\<close>

fun digits :: "nat \<Rightarrow> pystr" where
  "digits n = (if n < 10 then [48 + n] else digits (n div 10) @ [48 + n mod 10])"

text \<open>The interests of a run: the one given on the command line, if it is not empty, or
  the configured ones.\<close>

definition cli_interests :: "env \<Rightarrow> pystr option \<Rightarrow> pystr list" where
  "cli_interests env interest =
     (case interest of
        None \<Rightarrow> cfg_interests env
      | Some s \<Rightarrow> if s = [] then cfg_interests env else [s])"

text \<open>
  The loop over the fetched articles.  An article the store knows is skipped; in dry-run
  mode a new article is kept without content; otherwise its content is generated, it is
  appended to \<open>new_articles\<close> and saved, and an exception of these steps is printed and the
  loop goes on.  An exception of \<open>article_exists\<close> is outside every handler.
\<close>

fun process_articles ::
  "env \<Rightarrow> bool \<Rightarrow> world \<Rightarrow> PubMedArticle list \<Rightarrow> item list \<Rightarrow> (exn + item list) \<times> world" where
  "process_articles env dry_run w [] new_articles' = (Inr new_articles', w)"
| "process_articles env dry_run w (a # rest) new_articles' =
     (case article_exists env w (PubMedArticle.pmid a) of
        (Inl e, w1) \<Rightarrow> (Inl e, w1)
      | (Inr known, w1) \<Rightarrow>
          if known then process_articles env dry_run w1 rest new_articles'
          else if dry_run then
            process_articles env dry_run w1 rest
              (new_articles' @ [\<lparr>article = a, content = None\<rparr>])
          else
            (case generate_all env w1 a of
               (Inl e, w2) \<Rightarrow> process_articles env dry_run w2 rest new_articles'
             | (Inr generated, w2) \<Rightarrow>
                 (case save_article env w2 (to_dict a) 0 of (saved, w3) \<Rightarrow>
                    process_articles env dry_run w3 rest
                      (new_articles' @ [\<lparr>article = a, content = Some generated\<rparr>]))))"

text \<open>The summary file: its path under the report's dated directory and its text.\<close>

definition summary_path :: "Report \<Rightarrow> pystr" where
  "summary_path report =
     u ''data/reports/'' @ date report @ u ''/summary_'' @ Report.id' report @ u ''.txt''"

definition summary_entry :: "item \<Rightarrow> pystr" where
  "summary_entry it =
     concat [[10], u ''- '', PubMedArticle.title (article it), [10],
             u ''  PMID: '', PubMedArticle.pmid (article it), [10],
             u ''  '', [26399, 21002], u '': '', py_format (PubMedArticle.journal (article it)), [10],
             u ''  '', [38142, 25509], u '': '', url (article it), [10]]"

definition summary_text :: "env \<Rightarrow> Report \<Rightarrow> item list \<Rightarrow> pystr" where
  "summary_text env report new_articles' =
     concat [u ''PubMed '', [25628, 32034, 25253, 21578, 10],
             [25253, 21578], u ''ID: '', Report.id' report, [10],
             [29983, 25104, 26102, 38388], u '': '', now_isoformat env, [10],
             [25991, 31456, 25968, 37327], u '': '', digits (article_count report), [10],
             [10, 25991, 31456, 21015, 34920], u '':'', [10],
             concat (map summary_entry new_articles')]"

definition write_summary ::
  "env \<Rightarrow> world \<Rightarrow> Report \<Rightarrow> item list \<Rightarrow> (exn + unit) \<times> world" where
  "write_summary env w report new_articles' =
     (if open_raises env (summary_path report) then (Inl OSError, w)
      else (Inr (),
            w\<lparr>files := files w @ [(summary_path report, summary_text env report new_articles')]\<rparr>))"

text \<open>
  \<open>run_search\<close> from the test \<open>if not articles\<close> on: the loop, the test \<open>if not new_articles\<close>,
  and the \<open>try\<close> block that creates the report and writes the summary.
\<close>

definition process_and_report ::
  "env \<Rightarrow> world \<Rightarrow> PubMedArticle list \<Rightarrow> bool \<Rightarrow> (exn + bool) \<times> world" where
  "process_and_report env w arts dry_run =
     (if arts = [] then (Inr True, w)
      else
        (case process_articles env dry_run w arts [] of
           (Inl e, w1) \<Rightarrow> (Inl e, w1)
         | (Inr new_articles', w1) \<Rightarrow>
             if new_articles' = [] then (Inr True, w1)
             else
               (case create_report env w1 new_articles' of
                  (Inl e, w2) \<Rightarrow> (Inr False, w2)
                | (Inr report, w2) \<Rightarrow>
                    (case write_summary env w2 report new_articles' of
                       (Inl e, w3) \<Rightarrow> (Inr False, w3)
                     | (Inr done', w3) \<Rightarrow> (Inr True, w3)))))"

text \<open>
  \<open>run_search\<close>: the defaults, the queries and the combined query (first \<open>try\<close>), the search
  and the fetch (second \<open>try\<close>), and the rest.  The result is the returned flag, or the
  exception that leaves the function.
\<close>

definition run_search ::
  "env \<Rightarrow> world \<Rightarrow> pystr option \<Rightarrow> int option \<Rightarrow> int option \<Rightarrow> bool
     \<Rightarrow> (exn + bool) \<times> world" where
  "run_search env w interest days max_results dry_run =
     (let days1 = (case days of None \<Rightarrow> cfg_search_days env | Some d \<Rightarrow> d);
          max1 = (case max_results of None \<Rightarrow> cfg_max_results env | Some m \<Rightarrow> m)
      in case generate_queries env w (cli_interests env interest) [] of
           (Inl e, w1) \<Rightarrow> (Inr False, w1)
         | (Inr queries, w1) \<Rightarrow>
             (case search_and_fetch env w1 (combine_queries queries) (Some days1) (Some max1) of
                (Inl e, w2) \<Rightarrow> (Inr False, w2)
              | (Inr arts, w2) \<Rightarrow> process_and_report env w2 arts dry_run))"

section \<open>Frames\<close>

text \<open>The literature client changes nothing but the list of requested URLs.\<close>

definition only_http :: "world \<Rightarrow> world \<Rightarrow> bool" where
  "only_http w w' =
     (db w' = db w \<and> db_ops w' = db_ops w \<and> llm_log w' = llm_log w \<and> files w' = files w)"

section \<open>Concrete inputs\<close>

text \<open>
  An environment whose chat-completions and HTTP endpoints fail and whose parsers reject
  every input, an empty state, and an article dictionary; the theorems below are
  instantiated at these and at variations of them.
\<close>

definition env0 :: env where
  "env0 = \<lparr>cfg_model = u ''m'', cfg_interests = [u ''AI''], cfg_search_days = 7,
     cfg_max_results = 100,
     llm_create = (\<lambda>n req. Inl APIError),
     httpx_get = (\<lambda>n url' ua. Inl ConnectError),
     date_window = (\<lambda>d. Inr (u ''2026/10/28'', u ''2026/11/04'')),
     urlencode = (\<lambda>ps. Inr (u ''q'')),
     json_loads = (\<lambda>s. Inl JSONDecodeError),
     xml_fromstring = (\<lambda>s. Inl XMLParseError),
     db_raises = (\<lambda>n. False),
     utcnow = (\<lambda>n. n),
     reporter = (\<lambda>n items. ([], Inl ReportError)),
     open_raises = (\<lambda>p. False),
     now_isoformat = u ''2026-11-04T00:00:00''\<rparr>"

definition w0 :: world where
  "w0 = \<lparr>db = \<lparr>articles = Map.empty, reports = [], search_history = []\<rparr>, db_ops = 0,
     llm_log = [], http_log = [], files = []\<rparr>"

definition d0 :: "string \<rightharpoonup> pyval" where
  "d0 = [''pmid'' \<mapsto> PStr (u ''1''), ''title'' \<mapsto> PStr (u ''T'')]"

text \<open>
  Three article nodes: a complete one, one without a title, and one whose \<open>PubDate\<close> has an
  empty \<open>Year\<close> element; the document that holds them; and environments whose detail
  requests answer with that document, always or only the first time.
\<close>

definition node_ok :: element where
  "node_ok = Element (u ''PubmedArticle'') [] None
     [Element (u ''PMID'') [] (Some (u ''1'')) [],
      Element (u ''ArticleTitle'') [] (Some (u ''T'')) []]"

definition node_untitled :: element where
  "node_untitled = Element (u ''PubmedArticle'') [] None
     [Element (u ''PMID'') [] (Some (u ''2'')) []]"

definition node_bad_date :: element where
  "node_bad_date = Element (u ''PubmedArticle'') [] None
     [Element (u ''PMID'') [] (Some (u ''3'')) [],
      Element (u ''ArticleTitle'') [] (Some (u ''U'')) [],
      Element (u ''PubDate'') [] None [Element (u ''Year'') [] None []]]"

definition doc1 :: element where
  "doc1 = Element (u ''PubmedArticleSet'') [] None [node_ok, node_untitled, node_bad_date]"

definition env_ok :: env where
  "env_ok = env0\<lparr>httpx_get := (\<lambda>n url' ua. Inr \<lparr>status_code = 200, body = u ''<xml/>''\<rparr>),
                 xml_fromstring := (\<lambda>s. Inr doc1)\<rparr>"

definition env_once :: env where
  "env_once = env0\<lparr>httpx_get := (\<lambda>n url' ua.
                     if n = 0 then Inr \<lparr>status_code = 200, body = u ''<xml/>''\<rparr>
                     else Inr \<lparr>status_code = 503, body = []\<rparr>),
                   xml_fromstring := (\<lambda>s. Inr doc1)\<rparr>"

definition art1 :: PubMedArticle where
  "art1 = \<lparr>PubMedArticle.pmid = u ''1'', title = u ''T'', abstract = [], authors = [],
           journal = Some [], pub_date = [], doi = None, keywords = [], mesh_terms = []\<rparr>"

text \<open>
  An endpoint whose second call fails and whose other calls answer, one whose answers have
  no choice, and an environment in which the search finds the identifier \<open>1\<close>, the fetch
  answers with \<open>doc1\<close>, and the report generator assembles a report.
\<close>

definition env_llm :: env where
  "env_llm = env0\<lparr>llm_create := (\<lambda>n req. if n = 1 then Inl APIError else Inr [Some (u '' ok '')])\<rparr>"

definition env_nochoice :: env where
  "env_nochoice = env0\<lparr>llm_create := (\<lambda>n req. Inr [])\<rparr>"

definition report1 :: Report where
  "report1 = \<lparr>Report.id' = u ''r1'', date = u ''2026-11-04'', article_ids = [u ''1''],
              file_paths = [(u ''xiaohongshu_long_0'', u ''data/reports/2026-11-04/a.md'')],
              created_at = 0, article_count = 1\<rparr>"

definition env_full :: env where
  "env_full = env_ok\<lparr>json_loads := (\<lambda>s. Inr (JObj [(u ''esearchresult'',
                                          JObj [(u ''idlist'', JArr [JStr (u ''1'')])])])),
                    reporter := (\<lambda>n items. ([], Inr report1))\<rparr>"

text \<open>A state whose store already holds the article \<open>1\<close>.\<close>

definition row1 :: Article where
  "row1 = \<lparr>Article.pmid = u ''1'', title = u ''T'', abstract = Some [], authors = PList [],
           journal = Some [], pub_date = Some [], doi = None, keywords = PList [],
           mesh_terms = PList [], fetched_at = 0, quality_score = 0\<rparr>"

definition w_known :: world where
  "w_known = w0\<lparr>db := \<lparr>articles = [u ''1'' \<mapsto> row1], reports = [], search_history = []\<rparr>\<rparr>"

section \<open>The article store\<close>

lemma new_row_key: "new_row key ttl d qs now = Inr row \<Longrightarrow> key = PStr (Article.pmid row)"
  by (auto simp: new_row_def exn_bind_def bind_string_def not_null_def split: sum.splits pyval.splits option.splits)

lemma commit_article_cases:
  "commit_article env w key ttl d qs = (r, w') \<Longrightarrow>
     (r = Inr True \<and> (\<exists>row. key = PStr (Article.pmid row) \<and> articles (db w) (Article.pmid row) = None
         \<and> db w' = (db w)\<lparr>articles := (articles (db w))(Article.pmid row \<mapsto> row)\<rparr>)
         \<and> \<not> db_raises env (db_ops w))
     \<or> ((\<exists>e. r = Inl e) \<and> db w' = db w)"
  by (auto simp: commit_article_def db_op_def Let_def dest: new_row_key split: sum.splits if_splits)

lemma select_article_cases:
  "select_article env w key = (r, w') \<Longrightarrow>
     db w' = db w \<and> db_ops w' = Suc (db_ops w) \<and>
     (db_raises env (db_ops w) \<longrightarrow> (\<exists>e. r = Inl e)) \<and>
     (\<forall>p. key = PStr p \<longrightarrow> \<not> db_raises env (db_ops w) \<longrightarrow> r = Inr (articles (db w) p)) \<and>
     (\<forall>x. r = Inr (Some x) \<longrightarrow> (\<exists>p. key = PStr p))"
  by (auto simp: select_article_def db_op_def Let_def split: pyval.splits if_splits)

text \<open>
  C1.  \<open>save_article\<close> never raises: it returns \<open>True\<close> or \<open>False\<close>.  It returns \<open>True\<close> only
  when the article was newly inserted: the identifier was not in the store and the store
  afterwards is the old one with one row added under that identifier.  Whenever it
  returns \<open>False\<close> the database is unchanged.  It returns \<open>False\<close> when an article with the
  same identifier exists, and when the SELECT or the INSERT/COMMIT raises.
\<close>

theorem save_article_new_only:
  "(fst (save_article env w d qs) = Inr True \<or> fst (save_article env w d qs) = Inr False)
   \<and> (fst (save_article env w d qs) = Inr True \<longrightarrow>
        (\<exists>p row. d ''pmid'' = Some (PStr p) \<and> articles (db w) p = None \<and> Article.pmid row = p
           \<and> db (snd (save_article env w d qs))
               = (db w)\<lparr>articles := (articles (db w))(p \<mapsto> row)\<rparr>))
   \<and> (fst (save_article env w d qs) = Inr False \<longrightarrow> db (snd (save_article env w d qs)) = db w)
   \<and> ((\<exists>p. d ''pmid'' = Some (PStr p) \<and> articles (db w) p \<noteq> None) \<longrightarrow>
        fst (save_article env w d qs) = Inr False)
   \<and> (db_raises env (db_ops w) \<or> db_raises env (Suc (db_ops w)) \<longrightarrow>
        fst (save_article env w d qs) = Inr False)"
proof (cases "d ''pmid''")
  case None
  then show ?thesis by (auto simp: save_article_def save_article_try_def dict_item_def)
next
  case (Some key)
  obtain r w1 where sel: "select_article env w key = (r, w1)" by (cases "select_article env w key")
  note s = select_article_cases [OF sel]
  show ?thesis
  proof (cases r)
    case (Inl e)
    with Some sel s show ?thesis
      by (auto simp: save_article_def save_article_try_def dict_item_def)
  next
    case (Inr found)
    show ?thesis
    proof (cases found)
      case (Some existing)
      with Inr \<open>d ''pmid'' = Some key\<close> sel s show ?thesis
        by (auto simp: save_article_def save_article_try_def dict_item_def)
    next
      case None
      show ?thesis
      proof (cases "d ''title''")
        case None
        with Inr \<open>found = None\<close> \<open>d ''pmid'' = Some key\<close> sel s show ?thesis
          by (auto simp: save_article_def save_article_try_def dict_item_def)
      next
        case (Some ttl)
        obtain r2 w2 where com: "commit_article env w1 key ttl d qs = (r2, w2)"
          by (cases "commit_article env w1 key ttl d qs")
        have sa: "save_article env w d qs =
            (case r2 of Inr b \<Rightarrow> (Inr b, w2) | Inl e \<Rightarrow> (Inr False, w2\<lparr>db := db w\<rparr>))"
          using Inr \<open>found = None\<close> \<open>d ''pmid'' = Some key\<close> Some sel com
          by (simp add: save_article_def save_article_try_def dict_item_def)
        from commit_article_cases [OF com] show ?thesis
        proof
          assume ok: "r2 = Inr True \<and> (\<exists>row. key = PStr (Article.pmid row)
              \<and> articles (db w1) (Article.pmid row) = None
              \<and> db w2 = (db w1)\<lparr>articles := (articles (db w1))(Article.pmid row \<mapsto> row)\<rparr>)
              \<and> \<not> db_raises env (db_ops w1)"
          then obtain row where row: "key = PStr (Article.pmid row)"
              "articles (db w) (Article.pmid row) = None"
              "db w2 = (db w)\<lparr>articles := (articles (db w))(Article.pmid row \<mapsto> row)\<rparr>"
            using s by auto
          have "\<exists>p row'. d ''pmid'' = Some (PStr p) \<and> articles (db w) p = None
              \<and> Article.pmid row' = p
              \<and> db w2 = (db w)\<lparr>articles := (articles (db w))(p \<mapsto> row')\<rparr>"
            using row \<open>d ''pmid'' = Some key\<close> by blast
          moreover have "\<not> db_raises env (db_ops w)" "\<not> db_raises env (Suc (db_ops w))"
            using ok s Inr by auto
          ultimately show ?thesis
            using ok sa row \<open>d ''pmid'' = Some key\<close> by auto
        next
          assume "(\<exists>e. r2 = Inl e) \<and> db w2 = db w1"
          then show ?thesis using sa s by auto
        qed
      qed
    qed
  qed
qed

theorem save_article_new_only_witness:
  "fst (save_article env0 w0 d0 0) = Inr True
   \<and> (\<exists>row. db (snd (save_article env0 w0 d0 0)) = (db w0)\<lparr>articles := (articles (db w0))(u ''1'' \<mapsto> row)\<rparr>)
   \<and> fst (save_article env0 (snd (save_article env0 w0 d0 0)) d0 0) = Inr False
   \<and> db (snd (save_article env0 (snd (save_article env0 w0 d0 0)) d0 0)) = db (snd (save_article env0 w0 d0 0))
   \<and> fst (save_article (env0\<lparr>db_raises := (\<lambda>n. n = 1)\<rparr>) w0 d0 0) = Inr False
   \<and> db (snd (save_article (env0\<lparr>db_raises := (\<lambda>n. n = 1)\<rparr>) w0 d0 0)) = db w0"
proof -
  have a: "fst (save_article env0 w0 d0 0) = Inr True"
    by (simp add: save_article_def save_article_try_def dict_item_def select_article_def
      commit_article_def db_op_def env0_def w0_def d0_def new_row_def exn_bind_def bind_string_def
      not_null_def dict_get_def)
  have p: "d0 ''pmid'' = Some (PStr (u ''1''))" by (simp add: d0_def)
  have b: "articles (db (snd (save_article env0 w0 d0 0))) (u ''1'') \<noteq> None"
    by (simp add: save_article_def save_article_try_def dict_item_def select_article_def
      commit_article_def db_op_def env0_def w0_def d0_def new_row_def exn_bind_def bind_string_def
      not_null_def dict_get_def)
  have c: "db_raises (env0\<lparr>db_raises := (\<lambda>n. n = 1)\<rparr>) (Suc (db_ops w0))"
    by (simp add: w0_def)
  from a p save_article_new_only [of env0 w0 d0 0]
  have 1: "\<exists>row. db (snd (save_article env0 w0 d0 0)) = (db w0)\<lparr>articles := (articles (db w0))(u ''1'' \<mapsto> row)\<rparr>"
    by auto
  from p b save_article_new_only [of env0 "snd (save_article env0 w0 d0 0)" d0 0]
  have 2: "fst (save_article env0 (snd (save_article env0 w0 d0 0)) d0 0) = Inr False
     \<and> db (snd (save_article env0 (snd (save_article env0 w0 d0 0)) d0 0)) = db (snd (save_article env0 w0 d0 0))"
    by auto
  from c save_article_new_only [of "env0\<lparr>db_raises := (\<lambda>n. n = 1)\<rparr>" w0 d0 0]
  have 3: "fst (save_article (env0\<lparr>db_raises := (\<lambda>n. n = 1)\<rparr>) w0 d0 0) = Inr False
   \<and> db (snd (save_article (env0\<lparr>db_raises := (\<lambda>n. n = 1)\<rparr>) w0 d0 0)) = db w0"
    by auto
  from a 1 2 3 show ?thesis by blast
qed


section \<open>The query generator\<close>

text \<open>
  C7.  When the chat-completions call of \<open>generate_query\<close> fails (the call raises, or the
  answer has no choice, or the first choice has no content), \<open>generate_query\<close> does not
  raise: it returns the interest wrapped as \<open>(interest)[Title/Abstract]\<close>, after that one
  call.
\<close>

theorem generate_query_fallback:
  assumes "llm_create env (length (llm_log w)) (query_request env interest) = Inl e
           \<or> llm_create env (length (llm_log w)) (query_request env interest) = Inr []
           \<or> llm_create env (length (llm_log w)) (query_request env interest) = Inr (None # cs)"
  shows "fst (generate_query env w interest) = Inr (u ''('' @ interest @ u '')[Title/Abstract]'')
         \<and> llm_log (snd (generate_query env w interest))
             = llm_log w @ [query_request env interest]"
  using assms
  by (auto simp: generate_query_def chat_create_def exn_bind_def first_choice_text_def)

theorem generate_query_fallback_witness:
  "fst (generate_query env0 w0 (u ''AI'')) = Inr (u ''(AI)[Title/Abstract]'')
   \<and> length (llm_log (snd (generate_query env0 w0 (u ''AI'')))) = 1"
  using generate_query_fallback [of env0 w0 "u ''AI''" APIError]
  by (simp add: env0_def w0_def u_def)

section \<open>The literature client\<close>

text \<open>
  C8.  Once the date window is computed and the URL is built, a failure of the search
  request makes \<open>search\<close> return the empty list without raising: when the transport raises,
  when the status is not 2xx, and when the body is not JSON.  The request is made once.
\<close>

theorem search_failure_empty:
  assumes dw: "date_window env days = Inr (start, stop)"
    and su: "search_url env (u ''('' @ q @ u '') AND '' @ start @ u '':'' @ stop @ u ''[PDAT]'')
               max_results = Inr url'"
    and fail: "httpx_get env (length (http_log w)) url' user_agent = Inl e
       \<or> (\<exists>r. httpx_get env (length (http_log w)) url' user_agent = Inr r
              \<and> \<not> (200 \<le> status_code r \<and> status_code r < 300))
       \<or> (\<exists>r. httpx_get env (length (http_log w)) url' user_agent = Inr r
              \<and> json_loads env (body r) = Inl e)"
  shows "fst (search env w q days max_results) = Inr (JArr [])
         \<and> http_log (snd (search env w q days max_results)) = http_log w @ [url']"
  using assms
  by (auto simp: search_def search_try_def make_request_def http_fetch_def exn_bind_def
           split: sum.splits prod.splits)

theorem search_failure_empty_witness:
  "fst (search env0 w0 (u ''cancer'') 7 100) = Inr (JArr [])
   \<and> http_log (snd (search env0 w0 (u ''cancer'') 7 100))
       = [base_url @ u ''/esearch.fcgi?q'']"
proof -
  have 1: "date_window env0 7 = Inr (u ''2026/10/28'', u ''2026/11/04'')"
    by (simp add: env0_def)
  have 2: "search_url env0 (u ''('' @ u ''cancer'' @ u '') AND '' @ u ''2026/10/28'' @ u '':''
             @ u ''2026/11/04'' @ u ''[PDAT]'') 100 = Inr (base_url @ u ''/esearch.fcgi?q'')"
    by (simp add: search_url_def env0_def exn_bind_def u_def)
  have 3: "httpx_get env0 (length (http_log w0)) (base_url @ u ''/esearch.fcgi?q'') user_agent
             = Inl ConnectError"
    by (simp add: env0_def)
  from search_failure_empty [OF 1 2, of w0 ConnectError] 3 show ?thesis
    by (simp add: w0_def)
qed

subsection \<open>The loop over the batches\<close>

declare fetch_loop.simps [simp del]

lemma fetch_batch_ok:
  assumes "batch_doc env (length (http_log w)) batch = Inr d"
  shows "fetch_batch env w batch
           = (Inr (parse_articles d), w\<lparr>http_log := http_log w @ [projr (batch_url env batch)]\<rparr>)"
  using assms
  by (auto simp: batch_doc_def fetch_batch_def make_request_def exn_bind_def split: sum.splits)

lemma fetch_batch_fail:
  assumes "batch_doc env (length (http_log w)) batch = Inl e"
  shows "\<exists>w1. fetch_batch env w batch = (Inl e, w1)
           \<and> (http_log w1 = http_log w \<or> (\<exists>x. http_log w1 = http_log w @ [x]))"
  using assms
  by (auto simp: batch_doc_def fetch_batch_def make_request_def exn_bind_def split: sum.splits)

lemma fetch_loop_prefix:
  assumes "\<forall>j<k. i + 100 * j < length pmids
             \<and> batch_doc env (length (http_log w) + j) (take 100 (drop (i + 100 * j) pmids))
                 = Inr (docs j)"
  shows "\<exists>w1. fetch_loop env pmids i w arts
             = fetch_loop env pmids (i + 100 * k) w1
                 (arts @ concat (map (\<lambda>j. parse_articles (docs j)) [0..<k]))
           \<and> http_log w1 = http_log w
               @ map (\<lambda>j. projr (batch_url env (take 100 (drop (i + 100 * j) pmids)))) [0..<k]"
  using assms
proof (induction k arbitrary: i w arts docs)
  case 0
  show ?case by (rule exI [of _ w]) simp
next
  case (Suc k)
  from Suc.prems have first: "i < length pmids"
      "batch_doc env (length (http_log w)) (take 100 (drop i pmids)) = Inr (docs 0)"
    by force+
  define w' where "w' = w\<lparr>http_log := http_log w @ [projr (batch_url env (take 100 (drop i pmids)))]\<rparr>"
  have step: "fetch_loop env pmids i w arts
      = fetch_loop env pmids (i + 100) w' (arts @ parse_articles (docs 0))"
    using first by (subst fetch_loop.simps) (simp add: fetch_batch_ok w'_def)
  have rest: "\<forall>j<k. (i + 100) + 100 * j < length pmids
      \<and> batch_doc env (length (http_log w') + j) (take 100 (drop ((i + 100) + 100 * j) pmids))
          = Inr (docs (Suc j))"
  proof (intro allI impI)
    fix j assume "j < k"
    then have "Suc j < Suc k" by simp
    with Suc.prems have "i + 100 * Suc j < length pmids
       \<and> batch_doc env (length (http_log w) + Suc j) (take 100 (drop (i + 100 * Suc j) pmids))
           = Inr (docs (Suc j))" by blast
    then show "(i + 100) + 100 * j < length pmids
      \<and> batch_doc env (length (http_log w') + j) (take 100 (drop ((i + 100) + 100 * j) pmids))
          = Inr (docs (Suc j))"
      by (simp add: w'_def add.assoc add.commute add.left_commute)
  qed
  from Suc.IH [OF rest, of "arts @ parse_articles (docs 0)"]
  obtain w1 where w1: "fetch_loop env pmids (i + 100) w' (arts @ parse_articles (docs 0))
      = fetch_loop env pmids (i + 100 + 100 * k) w1
          ((arts @ parse_articles (docs 0)) @ concat (map (\<lambda>j. parse_articles (docs (Suc j))) [0..<k]))"
     "http_log w1 = http_log w'
         @ map (\<lambda>j. projr (batch_url env (take 100 (drop (i + 100 + 100 * j) pmids)))) [0..<k]"
    by blast
  have idx: "i + 100 + 100 * k = i + 100 * Suc k" by simp
  have "fetch_loop env pmids i w arts
      = fetch_loop env pmids (i + 100 * Suc k) w1
          (arts @ concat (map (\<lambda>j. parse_articles (docs j)) [0..<Suc k]))"
    using step w1(1) unfolding idx by (simp add: map_upt_Suc del: upt_Suc)
  moreover have "http_log w1 = http_log w
      @ map (\<lambda>j. projr (batch_url env (take 100 (drop (i + 100 * j) pmids)))) [0..<Suc k]"
    using w1(2) by (simp add: w'_def map_upt_Suc add.assoc del: upt_Suc)
  ultimately show ?case by blast
qed


lemma nb_lt: "j < (n + 99) div 100 \<Longrightarrow> 100 * j < (n::nat)"
  using div_mult_mod_eq [of "n + 99" 100] mod_less_divisor [of 100 "n + 99"] by linarith
lemma nb_ge: "\<not> 100 * ((n + 99) div 100) < (n::nat)"
  using div_mult_mod_eq [of "n + 99" 100] mod_less_divisor [of 100 "n + 99"] by linarith
lemma nb_pos: "0 < (n::nat) \<Longrightarrow> 0 < (n + 99) div 100"
  using div_mult_mod_eq [of "n + 99" 100] mod_less_divisor [of 100 "n + 99"] by linarith
lemma nb_drop: "(n + 99) div 100 = Suc m \<Longrightarrow> (n - 100 + 99) div 100 = (m::nat)"
proof (cases "100 \<le> n")
  case True
  assume a: "(n + 99) div 100 = Suc m"
  have "n + 99 = (n - 100 + 99) + 1 * 100" using True by simp
  then have "(n + 99) div 100 = (n - 100 + 99) div 100 + 1"
    by (metis div_mult_self1 zero_neq_numeral add.commute mult.commute)
  with a show ?thesis by simp
next
  case False
  assume a: "(n + 99) div 100 = Suc m"
  from False have "(n + 99) div 100 \<le> 1"
    using div_mult_mod_eq [of "n + 99" 100] by linarith
  with a have "m = 0" by simp
  moreover have "(n - 100 + 99) div 100 = 0" using False by simp
  ultimately show ?thesis by simp
qed

lemma batches_concat:
  "concat (map (\<lambda>j. take 100 (drop (100 * j) xs)) [0..<(length xs + 99) div 100]) = xs"
proof (induction "length xs" arbitrary: xs rule: less_induct)
  case less
  show ?case
  proof (cases "xs = []")
    case True
    then show ?thesis by simp
  next
    case False
    then have pos: "0 < (length xs + 99) div 100" by (intro nb_pos) simp
    then obtain m where m: "(length xs + 99) div 100 = Suc m" by (cases "(length xs + 99) div 100") auto
    have len: "length (drop 100 xs) < length xs" using False by simp
    have m': "(length (drop 100 xs) + 99) div 100 = m" using nb_drop [OF m] by simp
    have "concat (map (\<lambda>j. take 100 (drop (100 * j) xs)) [0..<Suc m])
        = take 100 xs @ concat (map (\<lambda>j. take 100 (drop (100 * j) (drop 100 xs))) [0..<m])"
      by (simp add: map_upt_Suc add.commute del: upt_Suc)
    also have "\<dots> = take 100 xs @ drop 100 xs"
      using less [OF len] m' by simp
    finally show ?thesis using m by simp
  qed
qed

text \<open>
  C6.  When every detail request succeeds (the URL is built, the answer has a 2xx status
  and its body parses as XML), \<open>fetch_articles\<close> on a list of identifiers issues exactly
  \<open>ceil(len/100)\<close> requests, none for the empty list; the \<open>j\<close>-th request is the one for the
  identifiers \<open>100 j\<close> to \<open>100 j + 99\<close>, and these batches together are the whole list.
\<close>

theorem fetch_articles_batches:
  assumes "\<forall>j < (length ids + 99) div 100.
     \<exists>d. batch_doc env (length (http_log w) + j) (take 100 (drop (100 * j) (map JStr ids))) = Inr d"
  shows "\<exists>urls arts w'. fetch_articles env w (JArr (map JStr ids)) = (Inr arts, w')
     \<and> http_log w' = http_log w @ urls
     \<and> length urls = (length ids + 99) div 100
     \<and> (\<forall>j < length urls.
           batch_url env (map JStr (take 100 (drop (100 * j) ids))) = Inr (urls ! j))
     \<and> concat (map (\<lambda>j. take 100 (drop (100 * j) ids)) [0..<length urls]) = ids"
proof (cases "ids = []")
  case True
  then show ?thesis by (simp add: fetch_articles_def json_truthy_def)
next
  case False
  define nb where "nb = (length ids + 99) div 100"
  define pmids where "pmids = map JStr ids"
  from assms have "\<forall>j. \<exists>d. j < nb \<longrightarrow>
      batch_doc env (length (http_log w) + j) (take 100 (drop (100 * j) pmids)) = Inr d"
    unfolding nb_def pmids_def by blast
  then obtain docs where docs: "\<forall>j. j < nb \<longrightarrow>
      batch_doc env (length (http_log w) + j) (take 100 (drop (100 * j) pmids)) = Inr (docs j)"
    by metis
  have inb: "\<forall>j<nb. 0 + 100 * j < length pmids"
    unfolding nb_def pmids_def by (auto dest: nb_lt)
  from docs inb have "\<forall>j<nb. 0 + 100 * j < length pmids
      \<and> batch_doc env (length (http_log w) + j) (take 100 (drop (0 + 100 * j) pmids)) = Inr (docs j)"
    by simp
  from fetch_loop_prefix [OF this, of "[]"]
  obtain w1 where w1: "fetch_loop env pmids 0 w []
      = fetch_loop env pmids (100 * nb) w1 (concat (map (\<lambda>j. parse_articles (docs j)) [0..<nb]))"
    "http_log w1 = http_log w
       @ map (\<lambda>j. projr (batch_url env (take 100 (drop (100 * j) pmids)))) [0..<nb]"
    by auto
  have fin: "\<not> 100 * nb < length pmids" unfolding nb_def pmids_def using nb_ge [of "length ids"] by simp
  have res: "fetch_articles env w (JArr pmids)
      = (Inr (concat (map (\<lambda>j. parse_articles (docs j)) [0..<nb])), w1)"
    using False w1(1) fin
    by (simp add: fetch_articles_def json_truthy_def json_items_def pmids_def fetch_loop.simps [of _ _ "100 * nb"])
  define urls where "urls = map (\<lambda>j. projr (batch_url env (take 100 (drop (100 * j) pmids)))) [0..<nb]"
  have u: "\<forall>j<nb. batch_url env (map JStr (take 100 (drop (100 * j) ids))) = Inr (urls ! j)"
  proof (intro allI impI)
    fix j assume j: "j < nb"
    with docs have "batch_doc env (length (http_log w) + j) (take 100 (drop (100 * j) pmids)) = Inr (docs j)"
      by blast
    then obtain x where "batch_url env (take 100 (drop (100 * j) pmids)) = Inr x"
      by (auto simp: batch_doc_def exn_bind_def split: sum.splits)
    then show "batch_url env (map JStr (take 100 (drop (100 * j) ids))) = Inr (urls ! j)"
      using j by (simp add: urls_def pmids_def take_map drop_map)
  qed
  have "length urls = nb" by (simp add: urls_def)
  with res w1(2) u batches_concat [of ids] show ?thesis
    unfolding urls_def [symmetric] nb_def [symmetric] pmids_def [symmetric] by auto
qed

lemma join_ids_strings: "join_ids (map JStr xs) = Inr (join (u '','') xs)"
proof -
  have "those (map (\<lambda>x. case x of JStr s \<Rightarrow> Some s | _ \<Rightarrow> None) (map JStr xs)) = Some xs"
    by (induction xs) auto
  then show ?thesis by (simp add: join_ids_def join_parts_def)
qed

lemma batch_doc_env_ok: "batch_doc env_ok k (map JStr xs) = Inr doc1"
  by (simp add: batch_doc_def batch_url_def join_ids_strings exn_bind_def http_fetch_def
      env_ok_def env0_def)

lemma batch_doc_env_once:
  "batch_doc env_once k (map JStr xs) = (if k = 0 then Inr doc1 else Inl (HTTPStatusError 503))"
  by (simp add: batch_doc_def batch_url_def join_ids_strings exn_bind_def http_fetch_def
      env_once_def env0_def)

lemma batch_doc_env_ok_slice: "batch_doc env_ok k (take a (drop b (map JStr xs))) = Inr doc1"
  by (simp only: drop_map take_map batch_doc_env_ok)

lemma batch_doc_env_once_slice:
  "batch_doc env_once k (take a (drop b (map JStr xs)))
     = (if k = 0 then Inr doc1 else Inl (HTTPStatusError 503))"
  by (simp only: drop_map take_map batch_doc_env_once)

theorem fetch_articles_batches_witness:
  "length (http_log (snd (fetch_articles env_ok w0 (JArr (map JStr (replicate 101 (u ''7''))))))) = 2"
proof -
  have "\<forall>j < (length (replicate 101 (u ''7'')) + 99) div 100.
     \<exists>d. batch_doc env_ok (length (http_log w0) + j)
            (take 100 (drop (100 * j) (map JStr (replicate 101 (u ''7''))))) = Inr d"
    by (intro allI impI exI) (rule batch_doc_env_ok_slice)
  from fetch_articles_batches [OF this] show ?thesis
    by (auto simp: w0_def)
qed

text \<open>
  C10.  When the first \<open>k\<close> batches are fetched and parsed and the request for batch \<open>k\<close>
  fails (in the transport, the status check or the XML parser), \<open>fetch_articles\<close> does
  not raise: it returns exactly the articles of the first \<open>k\<close> documents, and no request
  is made after the failing one.
\<close>

theorem fetch_articles_partial:
  assumes k: "100 * k < length ids"
    and ok: "\<forall>j<k. batch_doc env (length (http_log w) + j)
                     (take 100 (drop (100 * j) (map JStr ids))) = Inr (docs j)"
    and bad: "batch_doc env (length (http_log w) + k)
                (take 100 (drop (100 * k) (map JStr ids))) = Inl e"
  shows "\<exists>w'. fetch_articles env w (JArr (map JStr ids))
             = (Inr (concat (map (\<lambda>j. parse_articles (docs j)) [0..<k])), w')
           \<and> length (http_log w) + k \<le> length (http_log w')
           \<and> length (http_log w') \<le> length (http_log w) + k + 1"
proof -
  define pmids where "pmids = map JStr ids"
  have ne: "ids \<noteq> []" using k by auto
  have "\<forall>j<k. 0 + 100 * j < length pmids
      \<and> batch_doc env (length (http_log w) + j) (take 100 (drop (0 + 100 * j) pmids)) = Inr (docs j)"
    using k ok by (auto simp: pmids_def)
  from fetch_loop_prefix [OF this, of "[]"]
  obtain w1 where w1: "fetch_loop env pmids 0 w []
      = fetch_loop env pmids (100 * k) w1 (concat (map (\<lambda>j. parse_articles (docs j)) [0..<k]))"
    "http_log w1 = http_log w
       @ map (\<lambda>j. projr (batch_url env (take 100 (drop (100 * j) pmids)))) [0..<k]"
    by auto
  have len: "length (http_log w1) = length (http_log w) + k" using w1(2) by simp
  from bad have "batch_doc env (length (http_log w1)) (take 100 (drop (100 * k) pmids)) = Inl e"
    by (simp add: len pmids_def)
  from fetch_batch_fail [OF this]
  obtain w2 where w2: "fetch_batch env w1 (take 100 (drop (100 * k) pmids)) = (Inl e, w2)"
    "http_log w2 = http_log w1 \<or> (\<exists>x. http_log w2 = http_log w1 @ [x])"
    by blast
  have "fetch_loop env pmids (100 * k) w1 (concat (map (\<lambda>j. parse_articles (docs j)) [0..<k]))
      = ((Some e, concat (map (\<lambda>j. parse_articles (docs j)) [0..<k])), w2)"
    using k w2(1) by (subst fetch_loop.simps) (simp add: pmids_def)
  with w1(1) ne have "fetch_articles env w (JArr pmids)
      = (Inr (concat (map (\<lambda>j. parse_articles (docs j)) [0..<k])), w2)"
    by (simp add: fetch_articles_def json_truthy_def json_items_def pmids_def)
  moreover have "length (http_log w) + k \<le> length (http_log w2)"
      "length (http_log w2) \<le> length (http_log w) + k + 1"
    using w2(2) len by auto
  ultimately show ?thesis unfolding pmids_def by blast
qed

theorem fetch_articles_partial_witness:
  "fst (fetch_articles env_once w0 (JArr (map JStr (replicate 101 (u ''7''))))) = Inr (parse_articles doc1)
   \<and> length (http_log (snd (fetch_articles env_once w0 (JArr (map JStr (replicate 101 (u ''7''))))))) \<le> 2"
proof -
  have 1: "100 * 1 < length (replicate 101 (u ''7''))" by simp
  have 2: "\<forall>j<1. batch_doc env_once (length (http_log w0) + j)
             (take 100 (drop (100 * j) (map JStr (replicate 101 (u ''7''))))) = Inr ((\<lambda>j. doc1) j)"
    by (simp only: batch_doc_env_once_slice) (simp add: w0_def)
  have 3: "batch_doc env_once (length (http_log w0) + 1)
             (take 100 (drop (100 * 1) (map JStr (replicate 101 (u ''7''))))) = Inl (HTTPStatusError 503)"
    by (simp only: batch_doc_env_once_slice) (simp add: w0_def)
  from fetch_articles_partial [OF 1 2 3] show ?thesis
    by (auto simp: w0_def)
qed

subsection \<open>The article nodes of a document\<close>

lemmas node_defs = node_pmid_def node_title_def node_abstract_def node_authors_def
  node_journal_def node_pub_date_def node_doi_def node_keywords_def node_mesh_terms_def
  find_desc_def findall_desc_def find_child_def findall_path_def find_desc_attr_def first_def
  text_or_empty_def truthy_def texts_def join_parts_def date_part_def author_name_def

lemma parse_article_cases:
  "parse_article n =
     (if isl (node_pub_date n) then Inl (projl (node_pub_date n))
      else if truthy (node_pmid n) \<and> truthy (node_title n) then
        Inr (Some \<lparr>PubMedArticle.pmid = the (node_pmid n), title = the (node_title n),
                   abstract = node_abstract n, authors = node_authors n,
                   journal = node_journal n, pub_date = projr (node_pub_date n),
                   doi = node_doi n, keywords = node_keywords n,
                   mesh_terms = node_mesh_terms n\<rparr>)
      else Inr None)"
  by (cases "node_pub_date n") (simp_all add: parse_article_def)

lemma concat_map_filter:
  "concat (map (\<lambda>n. if P n then [f n] else []) xs) = map f (filter P xs)"
  by (induction xs) auto

lemma fetch_articles_single:
  assumes a: "ids \<noteq> [] \<and> length ids \<le> 100
        \<and> batch_doc env (length (http_log w)) (map JStr ids) = Inr doc"
  shows "fst (fetch_articles env w (JArr (map JStr ids))) = Inr (parse_articles doc)"
proof -
  from a have b: "batch_doc env (length (http_log w)) (map JStr ids) = Inr doc"
    by simp
  have "fetch_loop env (map JStr ids) 0 w []
      = fetch_loop env (map JStr ids) 100
          (w\<lparr>http_log := http_log w @ [projr (batch_url env (map JStr ids))]\<rparr>)
          (parse_articles doc)"
    using a by (subst fetch_loop.simps) (simp add: fetch_batch_ok [OF b])
  also have "\<dots> = ((None, parse_articles doc),
          w\<lparr>http_log := http_log w @ [projr (batch_url env (map JStr ids))]\<rparr>)"
    using a by (subst fetch_loop.simps) simp
  finally show ?thesis
    using a by (simp add: fetch_articles_def json_truthy_def json_items_def)
qed

lemma desc_doc1: "findall_desc (u ''PubmedArticle'') doc1 = [node_ok, node_untitled, node_bad_date]"
  by (simp add: findall_desc_def doc1_def node_ok_def node_untitled_def node_bad_date_def u_def)

lemma parse_ok: "parse_article node_ok = Inr (Some art1)"
  by (simp add: parse_article_def node_defs node_ok_def art1_def u_def)

lemma parse_untitled: "parse_article node_untitled = Inr None"
  by (simp add: parse_article_def node_defs node_untitled_def u_def)

lemma parse_bad_date: "parse_article node_bad_date = Inl TypeError"
  by (simp add: parse_article_def node_defs node_bad_date_def u_def)

lemma parse_doc1: "parse_articles doc1 = [art1]"
  by (simp add: parse_articles_def desc_doc1 parse_ok parse_untitled parse_bad_date)

text \<open>
  C5, as the code has it.  The articles a document adds are, in document order, the records
  of exactly those article nodes that yield a non-empty identifier and a non-empty title
  and whose fields are extracted without an exception (the one the extraction can raise is
  the \<open>TypeError\<close> of joining a \<open>Year\<close>, \<open>Month\<close> or \<open>Day\<close> without text); a fetch of one batch
  returns them.  A node without identifier or title never appears.
\<close>

theorem fetch_articles_kept_nodes:
  "parse_articles doc =
     map (\<lambda>n. \<lparr>PubMedArticle.pmid = the (node_pmid n), title = the (node_title n),
                abstract = node_abstract n, authors = node_authors n,
                journal = node_journal n, pub_date = projr (node_pub_date n),
                doi = node_doi n, keywords = node_keywords n,
                mesh_terms = node_mesh_terms n\<rparr>)
         (filter (\<lambda>n. truthy (node_pmid n) \<and> truthy (node_title n) \<and> \<not> isl (node_pub_date n))
                 (findall_desc (u ''PubmedArticle'') doc))
   \<and> (ids \<noteq> [] \<and> length ids \<le> 100
        \<and> batch_doc env (length (http_log w)) (map JStr ids) = Inr doc
      \<longrightarrow> fst (fetch_articles env w (JArr (map JStr ids))) = Inr (parse_articles doc))"
proof
  have "(\<lambda>n. case parse_article n of Inr (Some a) \<Rightarrow> [a] | _ \<Rightarrow> [])
      = (\<lambda>n. if truthy (node_pmid n) \<and> truthy (node_title n) \<and> \<not> isl (node_pub_date n)
              then [\<lparr>PubMedArticle.pmid = the (node_pmid n), title = the (node_title n),
                abstract = node_abstract n, authors = node_authors n,
                journal = node_journal n, pub_date = projr (node_pub_date n),
                doi = node_doi n, keywords = node_keywords n,
                mesh_terms = node_mesh_terms n\<rparr>] else [])"
    by (rule ext) (simp add: parse_article_cases)
  then show "parse_articles doc =
     map (\<lambda>n. \<lparr>PubMedArticle.pmid = the (node_pmid n), title = the (node_title n),
                abstract = node_abstract n, authors = node_authors n,
                journal = node_journal n, pub_date = projr (node_pub_date n),
                doi = node_doi n, keywords = node_keywords n,
                mesh_terms = node_mesh_terms n\<rparr>)
         (filter (\<lambda>n. truthy (node_pmid n) \<and> truthy (node_title n) \<and> \<not> isl (node_pub_date n))
                 (findall_desc (u ''PubmedArticle'') doc))"
    by (simp add: parse_articles_def concat_map_filter)
next
  show "ids \<noteq> [] \<and> length ids \<le> 100
        \<and> batch_doc env (length (http_log w)) (map JStr ids) = Inr doc
      \<longrightarrow> fst (fetch_articles env w (JArr (map JStr ids))) = Inr (parse_articles doc)"
    by (rule impI) (rule fetch_articles_single)
qed

theorem fetch_articles_kept_nodes_witness:
  "fst (fetch_articles env_ok w0 (JArr (map JStr [u ''1'', u ''2'', u ''3'']))) = Inr [art1]"
proof -
  have "[u ''1'', u ''2'', u ''3''] \<noteq> [] \<and> length [u ''1'', u ''2'', u ''3''] \<le> 100
     \<and> batch_doc env_ok (length (http_log w0)) (map JStr [u ''1'', u ''2'', u ''3'']) = Inr doc1"
    by (simp only: batch_doc_env_ok) simp
  moreover from fetch_articles_kept_nodes [of doc1 "[u ''1'', u ''2'', u ''3'']" env_ok w0]
  have "[u ''1'', u ''2'', u ''3''] \<noteq> [] \<and> length [u ''1'', u ''2'', u ''3''] \<le> 100
     \<and> batch_doc env_ok (length (http_log w0)) (map JStr [u ''1'', u ''2'', u ''3'']) = Inr doc1
     \<longrightarrow> fst (fetch_articles env_ok w0 (JArr (map JStr [u ''1'', u ''2'', u ''3''])))
           = Inr (parse_articles doc1)"
    by (rule conjunct2)
  ultimately have "fst (fetch_articles env_ok w0 (JArr (map JStr [u ''1'', u ''2'', u ''3''])))
           = Inr (parse_articles doc1)"
    by (rule rev_mp)
  then show ?thesis by (simp only: parse_doc1)
qed

text \<open>
  The claim without the exception fails: \<open>node_bad_date\<close> yields the identifier \<open>3\<close> and
  the title \<open>U\<close>, and the fetch that parses it returns only the article \<open>1\<close>.
\<close>

theorem dropped_record_counterexample:
  "node_bad_date \<in> set (findall_desc (u ''PubmedArticle'') doc1)
   \<and> node_pmid node_bad_date = Some (u ''3'') \<and> node_title node_bad_date = Some (u ''U'')
   \<and> truthy (node_pmid node_bad_date) \<and> truthy (node_title node_bad_date)
   \<and> batch_doc env_ok (length (http_log w0)) (map JStr [u ''1'', u ''2'', u ''3'']) = Inr doc1
   \<and> fst (fetch_articles env_ok w0 (JArr (map JStr [u ''1'', u ''2'', u ''3'']))) = Inr [art1]
   \<and> PubMedArticle.pmid art1 = u ''1''"
proof -
  have bd: "batch_doc env_ok (length (http_log w0)) (map JStr [u ''1'', u ''2'', u ''3''])
      = Inr doc1"
    by (rule batch_doc_env_ok)
  have "[u ''1'', u ''2'', u ''3''] \<noteq> [] \<and> length [u ''1'', u ''2'', u ''3''] \<le> 100
      \<and> batch_doc env_ok (length (http_log w0)) (map JStr [u ''1'', u ''2'', u ''3'']) = Inr doc1"
    using bd by simp
  then have "fst (fetch_articles env_ok w0 (JArr (map JStr [u ''1'', u ''2'', u ''3''])))
      = Inr (parse_articles doc1)"
    by (rule fetch_articles_single)
  then have out: "fst (fetch_articles env_ok w0 (JArr (map JStr [u ''1'', u ''2'', u ''3''])))
      = Inr [art1]"
    by (simp only: parse_doc1)
  have n: "node_pmid node_bad_date = Some (u ''3'')" "node_title node_bad_date = Some (u ''U'')"
    by (simp_all add: node_defs node_bad_date_def u_def)
  have m: "node_bad_date \<in> set (findall_desc (u ''PubmedArticle'') doc1)"
    by (simp add: desc_doc1)
  have t: "truthy (node_pmid node_bad_date)" "truthy (node_title node_bad_date)"
    by (simp_all add: n truthy_def u_def)
  have p: "PubMedArticle.pmid art1 = u ''1''" by (simp add: art1_def)
  from m n t bd out p show ?thesis by (intro conjI)
qed

section \<open>The content generator\<close>

lemma completion_bind:
  "exn_bind r first_choice_text = (case completion r of None \<Rightarrow> Inl (case r of Inl e \<Rightarrow> e | Inr [] \<Rightarrow> IndexError | _ \<Rightarrow> AttributeError) | Some t \<Rightarrow> Inr t)"
  by (auto simp: exn_bind_def first_choice_text_def completion_def split: sum.splits list.splits option.splits)

lemma generate_xiaohongshu_long_eq:
  "generate_xiaohongshu_long env w a =
     (Inr (case completion (llm_create env (length (llm_log w)) (xiaohongshu_long_request env a)) of
             None \<Rightarrow> fallback_xiaohongshu_long a | Some t \<Rightarrow> t),
      w\<lparr>llm_log := llm_log w @ [xiaohongshu_long_request env a]\<rparr>)"
  by (simp add: generate_xiaohongshu_long_def chat_create_def completion_bind split: option.splits)

lemma generate_xiaohongshu_short_eq:
  "generate_xiaohongshu_short env w a =
     (Inr (case completion (llm_create env (length (llm_log w)) (xiaohongshu_short_request env a)) of
             None \<Rightarrow> fallback_xiaohongshu_short a | Some t \<Rightarrow> t),
      w\<lparr>llm_log := llm_log w @ [xiaohongshu_short_request env a]\<rparr>)"
  by (simp add: generate_xiaohongshu_short_def chat_create_def completion_bind split: option.splits)

lemma generate_wechat_long_eq:
  "generate_wechat_long env w a =
     (Inr (case completion (llm_create env (length (llm_log w)) (wechat_long_request env a)) of
             None \<Rightarrow> fallback_wechat_long a | Some t \<Rightarrow> t),
      w\<lparr>llm_log := llm_log w @ [wechat_long_request env a]\<rparr>)"
  by (simp add: generate_wechat_long_def chat_create_def completion_bind split: option.splits)

lemma generate_wechat_short_eq:
  "generate_wechat_short env w a =
     (Inr (case completion (llm_create env (length (llm_log w)) (wechat_short_request env a)) of
             None \<Rightarrow> fallback_wechat_short a | Some t \<Rightarrow> t),
      w\<lparr>llm_log := llm_log w @ [wechat_short_request env a]\<rparr>)"
  by (simp add: generate_wechat_short_def chat_create_def completion_bind split: option.splits)

text \<open>
  C2.  \<open>generate_all\<close> never raises and returns the mapping with exactly the four keys
  \<open>xiaohongshu_long\<close>, \<open>xiaohongshu_short\<close>, \<open>wechat_long\<close> and \<open>wechat_short\<close>, after
  exactly four chat-completions calls, one per variant.  The text of a variant is decided
  by the outcome of its own call alone: the stripped completion when the call yields one,
  and the variant's template of the article when it fails.
\<close>

theorem generate_all_variants:
  "generate_all env w a =
     (Inr [(''xiaohongshu_long'',
            case completion (llm_create env (length (llm_log w)) (xiaohongshu_long_request env a)) of
              None \<Rightarrow> fallback_xiaohongshu_long a | Some t \<Rightarrow> t),
           (''xiaohongshu_short'',
            case completion (llm_create env (length (llm_log w) + 1) (xiaohongshu_short_request env a)) of
              None \<Rightarrow> fallback_xiaohongshu_short a | Some t \<Rightarrow> t),
           (''wechat_long'',
            case completion (llm_create env (length (llm_log w) + 2) (wechat_long_request env a)) of
              None \<Rightarrow> fallback_wechat_long a | Some t \<Rightarrow> t),
           (''wechat_short'',
            case completion (llm_create env (length (llm_log w) + 3) (wechat_short_request env a)) of
              None \<Rightarrow> fallback_wechat_short a | Some t \<Rightarrow> t)],
      w\<lparr>llm_log := llm_log w @ [xiaohongshu_long_request env a, xiaohongshu_short_request env a,
                                  wechat_long_request env a, wechat_short_request env a]\<rparr>)"
  by (simp add: generate_all_def generate_xiaohongshu_long_eq generate_xiaohongshu_short_eq
      generate_wechat_long_eq generate_wechat_short_eq numeral_3_eq_3)


theorem generate_all_variants_witness:
  "fst (generate_all env_llm w0 art1)
     = Inr [(''xiaohongshu_long'', u ''ok''),
            (''xiaohongshu_short'', fallback_xiaohongshu_short art1),
            (''wechat_long'', u ''ok''), (''wechat_short'', u ''ok'')]
   \<and> length (llm_log (snd (generate_all env_llm w0 art1))) = 4"
  using generate_all_variants [of env_llm w0 art1]
  by (simp add: env_llm_def env0_def w0_def completion_def strip_def py_isspace_def u_def)

text \<open>
  C9.  For each of the four variants: whenever the variant's call fails, in whatever
  environment and state and in whatever way, the generator returns the variant's template
  of the article, so two failed attempts on one article return the same text.
\<close>

theorem fallback_deterministic:
  "(completion (llm_create env1 (length (llm_log w1)) (xiaohongshu_long_request env1 a)) = None
    \<and> completion (llm_create env2 (length (llm_log w2)) (xiaohongshu_long_request env2 a)) = None
    \<longrightarrow> fst (generate_xiaohongshu_long env1 w1 a) = fst (generate_xiaohongshu_long env2 w2 a)
        \<and> fst (generate_xiaohongshu_long env1 w1 a) = Inr (fallback_xiaohongshu_long a))
   \<and> (completion (llm_create env1 (length (llm_log w1)) (xiaohongshu_short_request env1 a)) = None
    \<and> completion (llm_create env2 (length (llm_log w2)) (xiaohongshu_short_request env2 a)) = None
    \<longrightarrow> fst (generate_xiaohongshu_short env1 w1 a) = fst (generate_xiaohongshu_short env2 w2 a)
        \<and> fst (generate_xiaohongshu_short env1 w1 a) = Inr (fallback_xiaohongshu_short a))
   \<and> (completion (llm_create env1 (length (llm_log w1)) (wechat_long_request env1 a)) = None
    \<and> completion (llm_create env2 (length (llm_log w2)) (wechat_long_request env2 a)) = None
    \<longrightarrow> fst (generate_wechat_long env1 w1 a) = fst (generate_wechat_long env2 w2 a)
        \<and> fst (generate_wechat_long env1 w1 a) = Inr (fallback_wechat_long a))
   \<and> (completion (llm_create env1 (length (llm_log w1)) (wechat_short_request env1 a)) = None
    \<and> completion (llm_create env2 (length (llm_log w2)) (wechat_short_request env2 a)) = None
    \<longrightarrow> fst (generate_wechat_short env1 w1 a) = fst (generate_wechat_short env2 w2 a)
        \<and> fst (generate_wechat_short env1 w1 a) = Inr (fallback_wechat_short a))"
  by (simp add: generate_xiaohongshu_long_eq generate_xiaohongshu_short_eq
      generate_wechat_long_eq generate_wechat_short_eq)


theorem fallback_deterministic_witness:
  "fst (generate_xiaohongshu_long env0 w0 art1)
     = fst (generate_xiaohongshu_long env_nochoice (w0\<lparr>llm_log := [query_request env0 []]\<rparr>) art1)
   \<and> fst (generate_xiaohongshu_short env0 w0 art1)
     = fst (generate_xiaohongshu_short env_nochoice (w0\<lparr>llm_log := [query_request env0 []]\<rparr>) art1)
   \<and> fst (generate_wechat_long env0 w0 art1)
     = fst (generate_wechat_long env_nochoice (w0\<lparr>llm_log := [query_request env0 []]\<rparr>) art1)
   \<and> fst (generate_wechat_short env0 w0 art1)
     = fst (generate_wechat_short env_nochoice (w0\<lparr>llm_log := [query_request env0 []]\<rparr>) art1)"
  using fallback_deterministic [of env0 w0 art1 env_nochoice "w0\<lparr>llm_log := [query_request env0 []]\<rparr>"]
  by (simp add: env0_def env_nochoice_def completion_def)

section \<open>The pipeline\<close>

lemma generate_query_eq:
  "\<exists>q. generate_query env w i = (Inr q, w\<lparr>llm_log := llm_log w @ [query_request env i]\<rparr>)"
  by (simp add: generate_query_def chat_create_def split: sum.splits)

lemma generate_queries_eq:
  "\<exists>qs'. generate_queries env w is qs
     = (Inr qs', w\<lparr>llm_log := llm_log w @ map (query_request env) is\<rparr>)"
proof (induction "is" arbitrary: w qs)
  case Nil
  then show ?case by simp
next
  case (Cons i "is")
  obtain q where q: "generate_query env w i = (Inr q, w\<lparr>llm_log := llm_log w @ [query_request env i]\<rparr>)"
    using generate_query_eq by blast
  from Cons.IH [of "w\<lparr>llm_log := llm_log w @ [query_request env i]\<rparr>" "qs @ [q]"]
  show ?case by (simp add: q)
qed

lemma only_http_refl: "only_http w w"
  by (simp add: only_http_def)

lemma only_http_trans: "only_http w w1 \<Longrightarrow> only_http w1 w2 \<Longrightarrow> only_http w w2"
  by (simp add: only_http_def)

lemma make_request_frame: "only_http w (snd (make_request env w x))"
  by (simp add: make_request_def only_http_def)

lemma search_frame: "only_http w (snd (search env w q d m))"
  by (simp add: search_def search_try_def make_request_def only_http_def split: sum.splits prod.splits)

lemma fetch_batch_frame: "only_http w (snd (fetch_batch env w b))"
  by (simp add: fetch_batch_def make_request_def only_http_def split: sum.splits prod.splits)

lemma fetch_loop_frame: "only_http w (snd (fetch_loop env pmids i w arts))"
proof (induction env pmids i w arts rule: fetch_loop.induct)
  case (1 env pmids i w arts)
  show ?case
  proof (cases "i < length pmids")
    case False
    then show ?thesis by (subst fetch_loop.simps) (simp add: only_http_refl)
  next
    case True
    obtain r w1 where b: "fetch_batch env w (take 100 (drop i pmids)) = (r, w1)"
      by (cases "fetch_batch env w (take 100 (drop i pmids))")
    from fetch_batch_frame [of w env "take 100 (drop i pmids)"] b
    have l: "only_http w w1" by simp
    show ?thesis
    proof (cases r)
      case (Inl e)
      then show ?thesis using True b l by (subst fetch_loop.simps) simp
    next
      case (Inr parsed)
      from "1.IH" [OF True b [symmetric] Inr]
      have "only_http w1 (snd (fetch_loop env pmids (i + 100) w1 (arts @ parsed)))" .
      with l have "only_http w (snd (fetch_loop env pmids (i + 100) w1 (arts @ parsed)))"
        by (rule only_http_trans)
      then show ?thesis using True b Inr by (subst fetch_loop.simps) simp
    qed
  qed
qed

lemma fetch_articles_frame: "only_http w (snd (fetch_articles env w pmids))"
proof (cases "json_truthy pmids")
  case False
  then show ?thesis by (simp add: fetch_articles_def only_http_refl)
next
  case True
  show ?thesis
  proof (cases "json_items pmids")
    case (Inl e)
    then show ?thesis using True by (simp add: fetch_articles_def only_http_refl)
  next
    case (Inr xs)
    from fetch_loop_frame [of w env xs 0 "[]"] show ?thesis
      using True Inr by (auto simp: fetch_articles_def split: prod.splits)
  qed
qed

lemma search_and_fetch_frame: "only_http w (snd (search_and_fetch env w q d m))"
proof -
  let ?d = "case d of None \<Rightarrow> cfg_search_days env | Some x \<Rightarrow> x"
  let ?m = "case m of None \<Rightarrow> cfg_max_results env | Some x \<Rightarrow> x"
  obtain r w1 where s: "search env w q ?d ?m = (r, w1)" by (cases "search env w q ?d ?m")
  from search_frame [of w env q ?d ?m] s have 1: "only_http w w1" by simp
  show ?thesis
  proof (cases r)
    case (Inl e)
    then show ?thesis using s 1 by (simp add: search_and_fetch_def)
  next
    case (Inr pmids)
    from only_http_trans [OF 1 fetch_articles_frame [of w1 env pmids]]
    show ?thesis using s Inr by (simp add: search_and_fetch_def)
  qed
qed

lemma article_exists_eq:
  "article_exists env w p =
     (if db_raises env (db_ops w) then Inl OperationalError else Inr (articles (db w) p \<noteq> None),
      w\<lparr>db_ops := Suc (db_ops w)\<rparr>)"
  by (simp add: article_exists_def select_article_def db_op_def)

lemma process_articles_dry:
  "db (snd (process_articles env True w arts acc)) = db w
   \<and> llm_log (snd (process_articles env True w arts acc)) = llm_log w
   \<and> files (snd (process_articles env True w arts acc)) = files w"
  by (induction arts arbitrary: w acc) (simp_all add: article_exists_eq)

lemma process_articles_known:
  assumes "\<forall>a \<in> set arts. PubMedArticle.pmid a \<in> dom (articles (db w))"
    and "\<forall>k. \<not> db_raises env k"
  shows "fst (process_articles env dry w arts acc) = Inr acc
   \<and> db (snd (process_articles env dry w arts acc)) = db w
   \<and> llm_log (snd (process_articles env dry w arts acc)) = llm_log w
   \<and> files (snd (process_articles env dry w arts acc)) = files w"
  using assms
  by (induction arts arbitrary: w acc) (auto simp: article_exists_eq)

lemma save_report_frame:
  "articles (db (save_report env w i d ids ps)) = articles (db w)
   \<and> search_history (db (save_report env w i d ids ps)) = search_history (db w)
   \<and> llm_log (save_report env w i d ids ps) = llm_log w"
  by (simp add: save_report_def db_op_def)

lemma create_report_frame:
  "articles (db (snd (create_report env w items))) = articles (db w)
   \<and> search_history (db (snd (create_report env w items))) = search_history (db w)
   \<and> llm_log (snd (create_report env w items)) = llm_log w"
  by (simp add: create_report_def save_report_frame Let_def split: prod.splits sum.splits)

lemma write_summary_frame:
  "db (snd (write_summary env w r items)) = db w
   \<and> llm_log (snd (write_summary env w r items)) = llm_log w"
  by (simp add: write_summary_def)

lemma process_and_report_dry:
  "articles (db (snd (process_and_report env w arts True))) = articles (db w)
   \<and> search_history (db (snd (process_and_report env w arts True))) = search_history (db w)
   \<and> llm_log (snd (process_and_report env w arts True)) = llm_log w"
proof -
  obtain r w1 where p: "process_articles env True w arts [] = (r, w1)"
    by (cases "process_articles env True w arts []")
  from process_articles_dry [of env w arts "[]"] p
  have 1: "db w1 = db w" "llm_log w1 = llm_log w" by simp_all
  show ?thesis
  proof (cases r)
    case (Inl e)
    then show ?thesis using p 1 by (simp add: process_and_report_def)
  next
    case (Inr items)
    obtain r2 w2 where c: "create_report env w1 items = (r2, w2)"
      by (cases "create_report env w1 items")
    from create_report_frame [of env w1 items] c 1
    have 2: "articles (db w2) = articles (db w)" "search_history (db w2) = search_history (db w)"
      "llm_log w2 = llm_log w" by simp_all
    show ?thesis
    proof (cases r2)
      case (Inl e)
      then show ?thesis using p Inr c 1 2 by (simp add: process_and_report_def)
    next
      case (Inr report)
      from write_summary_frame [of env w2 report items] 2
      show ?thesis using p \<open>r = Inr items\<close> c Inr 1
        by (auto simp: process_and_report_def split: prod.splits sum.splits)
    qed
  qed
qed


lemma gq_full:
  "generate_queries env_full w (cli_interests env_full None) []
     = (Inr [u ''(AI)[Title/Abstract]''],
        w\<lparr>llm_log := llm_log w @ [query_request env_full (u ''AI'')]\<rparr>)"
  by (simp add: cli_interests_def generate_query_def chat_create_def exn_bind_def
      env_full_def env_ok_def env0_def u_def)

lemma search_full:
  "fst (search env_full w q 7 100) = Inr (JArr [JStr (u ''1'')])"
  by (simp add: search_def search_try_def search_url_def make_request_def http_fetch_def
      json_get_def exn_bind_def env_full_def env_ok_def env0_def u_def)

lemma batch_doc_full: "batch_doc env_full k [JStr (u ''1'')] = Inr doc1"
  by (simp add: batch_doc_def batch_url_def join_ids_def join_parts_def exn_bind_def http_fetch_def
      env_full_def env_ok_def env0_def)

lemma fetch_full: "fst (fetch_articles env_full w (JArr [JStr (u ''1'')])) = Inr [art1]"
proof -
  have "[u ''1''] \<noteq> [] \<and> length [u ''1''] \<le> 100
      \<and> batch_doc env_full (length (http_log w)) (map JStr [u ''1'']) = Inr doc1"
    by (simp add: batch_doc_full)
  then have "fst (fetch_articles env_full w (JArr (map JStr [u ''1'']))) = Inr (parse_articles doc1)"
    by (rule fetch_articles_single)
  then show ?thesis by (simp add: parse_doc1)
qed

lemma saf_full:
  "fst (search_and_fetch env_full w q (Some 7) (Some 100)) = Inr [art1]"
proof -
  obtain w1 where "search env_full w q 7 100 = (Inr (JArr [JStr (u ''1'')]), w1)"
    using search_full [of w q] by (cases "search env_full w q 7 100") auto
  then show ?thesis by (simp add: search_and_fetch_def fetch_full)
qed

lemma par_full:
  "db w = db w0 \<Longrightarrow> process_and_report env_full w [art1] True
     = (Inr True, w\<lparr>db_ops := Suc (Suc (db_ops w)),
           files := files w @ [(summary_path report1,
              summary_text env_full report1 [\<lparr>article = art1, content = None\<rparr>])],
           db := (db w0)\<lparr>reports := [report1\<lparr>Report.created_at := utcnow env_full (Suc (db_ops w))\<rparr>]\<rparr>\<rparr>)"
  by (simp add: process_and_report_def article_exists_eq create_report_def save_report_def
      write_summary_def db_op_def env_full_def env_ok_def env0_def w0_def art1_def report1_def)

text \<open>
  C3, as the code has it.  A run of \<open>run_search\<close> in dry-run mode makes no content-generation
  call (the only chat-completions calls are the query translations, one per interest),
  leaves the article store unchanged, and records no search-history entry.
\<close>

theorem dry_run_frame:
  "articles (db (snd (run_search env w interest days max_results True))) = articles (db w)
   \<and> search_history (db (snd (run_search env w interest days max_results True)))
       = search_history (db w)
   \<and> llm_log (snd (run_search env w interest days max_results True))
       = llm_log w @ map (query_request env) (cli_interests env interest)"
proof -
  let ?d = "case days of None \<Rightarrow> cfg_search_days env | Some d \<Rightarrow> d"
  let ?m = "case max_results of None \<Rightarrow> cfg_max_results env | Some m \<Rightarrow> m"
  let ?w1 = "w\<lparr>llm_log := llm_log w @ map (query_request env) (cli_interests env interest)\<rparr>"
  obtain qs where g: "generate_queries env w (cli_interests env interest) [] = (Inr qs, ?w1)"
    using generate_queries_eq by blast
  obtain r w2 where s: "search_and_fetch env ?w1 (combine_queries qs) (Some ?d) (Some ?m) = (r, w2)"
    by (cases "search_and_fetch env ?w1 (combine_queries qs) (Some ?d) (Some ?m)")
  from search_and_fetch_frame [of ?w1 env "combine_queries qs" "Some ?d" "Some ?m"] s
  have f: "db w2 = db w" "llm_log w2 = llm_log ?w1" by (simp_all add: only_http_def)
  show ?thesis
  proof (cases r)
    case (Inl e)
    then show ?thesis using g s f by (simp add: run_search_def)
  next
    case (Inr arts)
    from process_and_report_dry [of env w2 arts] f
    show ?thesis using g s Inr by (simp add: run_search_def)
  qed
qed


theorem dry_run_frame_witness:
  "articles (db (snd (run_search env_full w0 None None None True))) = Map.empty
   \<and> search_history (db (snd (run_search env_full w0 None None None True))) = []
   \<and> llm_log (snd (run_search env_full w0 None None None True)) = [query_request env_full (u ''AI'')]"
  using dry_run_frame [of env_full w0 None None None]
  by (simp add: w0_def cli_interests_def env_full_def env_ok_def env0_def)

text \<open>
  The claim asks for exactly one history entry.  In this dry run the search and fetch find
  one article, the store does not know it, and the history after the run is the history
  before it.
\<close>

lemma run_full_dry:
  "\<exists>w2. run_search env_full w0 None None None True
     = (Inr True, w2\<lparr>db_ops := Suc (Suc (db_ops w2)),
           files := files w2 @ [(summary_path report1,
              summary_text env_full report1 [\<lparr>article = art1, content = None\<rparr>])],
           db := (db w0)\<lparr>reports := [report1\<lparr>Report.created_at := utcnow env_full (Suc (db_ops w2))\<rparr>]\<rparr>\<rparr>)"
proof -
  let ?w1 = "w0\<lparr>llm_log := llm_log w0 @ [query_request env_full (u ''AI'')]\<rparr>"
  let ?q = "combine_queries [u ''(AI)[Title/Abstract]'']"
  obtain r w2 where s: "search_and_fetch env_full ?w1 ?q (Some 7) (Some 100) = (r, w2)"
    by (cases "search_and_fetch env_full ?w1 ?q (Some 7) (Some 100)")
  from saf_full [of ?w1 ?q] s have r: "r = Inr [art1]" by simp
  from search_and_fetch_frame [of ?w1 env_full ?q "Some 7" "Some 100"] s
  have "db w2 = db w0" by (simp add: only_http_def)
  from par_full [OF this] have "run_search env_full w0 None None None True
     = (Inr True, w2\<lparr>db_ops := Suc (Suc (db_ops w2)),
           files := files w2 @ [(summary_path report1,
              summary_text env_full report1 [\<lparr>article = art1, content = None\<rparr>])],
           db := (db w0)\<lparr>reports := [report1\<lparr>Report.created_at := utcnow env_full (Suc (db_ops w2))\<rparr>]\<rparr>\<rparr>)"
    using s r by (simp add: run_search_def gq_full) (simp add: env_full_def env_ok_def env0_def)
  then show ?thesis by blast
qed

theorem dry_run_history_counterexample:
  "fst (search_and_fetch env_full (w0\<lparr>llm_log := [query_request env_full (u ''AI'')]\<rparr>)
          (u ''(AI)[Title/Abstract]'') (Some 7) (Some 100)) = Inr [art1]
   \<and> articles (db w0) (PubMedArticle.pmid art1) = None
   \<and> search_history (db (snd (run_search env_full w0 None None None True)))
       = search_history (db w0)"
proof -
  have "articles (db w0) (PubMedArticle.pmid art1) = None"
    by (simp add: w0_def)
  moreover have "search_history (db (snd (run_search env_full w0 None None None True)))
       = search_history (db w0)"
    using run_full_dry by auto
  ultimately show ?thesis using saf_full by blast
qed

text \<open>
  C4, as the code has it.  When the search and fetch yield no article, and when every
  fetched article is in the store (and the existence checks do not raise), \<open>run_search\<close>
  returns \<open>True\<close>, leaves the whole database unchanged (no report, no article and no
  search-history entry is added) and writes no file.
\<close>

theorem no_new_articles_success:
  assumes g: "generate_queries env w (cli_interests env interest) [] = (Inr qs, w1)"
    and s: "search_and_fetch env w1 (combine_queries qs)
              (Some (case days of None \<Rightarrow> cfg_search_days env | Some d \<Rightarrow> d))
              (Some (case max_results of None \<Rightarrow> cfg_max_results env | Some m \<Rightarrow> m))
            = (Inr arts, w2)"
    and z: "arts = [] \<or> ((\<forall>a \<in> set arts. PubMedArticle.pmid a \<in> dom (articles (db w)))
                          \<and> (\<forall>k. \<not> db_raises env k))"
  shows "fst (run_search env w interest days max_results dry_run) = Inr True
   \<and> db (snd (run_search env w interest days max_results dry_run)) = db w
   \<and> files (snd (run_search env w interest days max_results dry_run)) = files w"
proof -
  from generate_queries_eq [of env w "cli_interests env interest" "[]"] g
  have w1: "db w1 = db w" "files w1 = files w" by auto
  from search_and_fetch_frame [of w1 env "combine_queries qs"
      "Some (case days of None \<Rightarrow> cfg_search_days env | Some d \<Rightarrow> d)"
      "Some (case max_results of None \<Rightarrow> cfg_max_results env | Some m \<Rightarrow> m)"] s w1
  have w2: "db w2 = db w" "files w2 = files w"
    by (simp_all add: only_http_def)
  have r: "run_search env w interest days max_results dry_run = process_and_report env w2 arts dry_run"
    using g s by (simp add: run_search_def)
  from z show ?thesis
  proof
    assume "arts = []"
    then show ?thesis using r w2 by (simp add: process_and_report_def)
  next
    assume k: "(\<forall>a \<in> set arts. PubMedArticle.pmid a \<in> dom (articles (db w)))
                          \<and> (\<forall>k. \<not> db_raises env k)"
    then have "\<forall>a \<in> set arts. PubMedArticle.pmid a \<in> dom (articles (db w2))" using w2 by simp
    from process_articles_known [OF this, of env dry_run "[]"] k w2
    show ?thesis using r by (auto simp: process_and_report_def split: prod.splits sum.splits)
  qed
qed


theorem no_new_articles_success_witness:
  "fst (run_search env_full w_known None None None False) = Inr True
   \<and> db (snd (run_search env_full w_known None None None False)) = db w_known
   \<and> fst (run_search env0 w0 None None None True) = Inr True
   \<and> db (snd (run_search env0 w0 None None None True)) = db w0"
proof -
  let ?w1 = "w_known\<lparr>llm_log := llm_log w_known @ [query_request env_full (u ''AI'')]\<rparr>"
  let ?q = "combine_queries [u ''(AI)[Title/Abstract]'']"
  have g: "generate_queries env_full w_known (cli_interests env_full None) []
      = (Inr [u ''(AI)[Title/Abstract]''], ?w1)" by (rule gq_full)
  have s: "search_and_fetch env_full ?w1 ?q
      (Some (case None of None \<Rightarrow> cfg_search_days env_full | Some d \<Rightarrow> d))
      (Some (case None of None \<Rightarrow> cfg_max_results env_full | Some m \<Rightarrow> m))
      = (Inr [art1], snd (search_and_fetch env_full ?w1 ?q (Some 7) (Some 100)))"
    using saf_full [of ?w1 ?q]
    by (simp add: env_full_def env_ok_def env0_def prod_eq_iff)
  have z: "[art1] = [] \<or> ((\<forall>a \<in> set [art1]. PubMedArticle.pmid a \<in> dom (articles (db w_known)))
      \<and> (\<forall>k. \<not> db_raises env_full k))"
    by (simp add: w_known_def art1_def env_full_def env_ok_def env0_def)
  note a = no_new_articles_success [OF g s z, of False]
  let ?v1 = "w0\<lparr>llm_log := llm_log w0 @ [query_request env0 (u ''AI'')]\<rparr>"
  have g0: "generate_queries env0 w0 (cli_interests env0 None) []
      = (Inr [u ''(AI)[Title/Abstract]''], ?v1)"
    by (simp add: cli_interests_def generate_query_def chat_create_def exn_bind_def env0_def u_def)
  have s0: "search_and_fetch env0 ?v1 ?q
      (Some (case None of None \<Rightarrow> cfg_search_days env0 | Some d \<Rightarrow> d))
      (Some (case None of None \<Rightarrow> cfg_max_results env0 | Some m \<Rightarrow> m))
      = (Inr [], snd (search_and_fetch env0 ?v1 ?q (Some 7) (Some 100)))"
    by (simp add: search_and_fetch_def search_def search_try_def search_url_def make_request_def
        http_fetch_def exn_bind_def fetch_articles_def json_truthy_def env0_def)
  have z0: "([]::PubMedArticle list) = [] \<or> ((\<forall>a \<in> set []. PubMedArticle.pmid a \<in> dom (articles (db w0)))
      \<and> (\<forall>k. \<not> db_raises env0 k))"
    by simp
  note b = no_new_articles_success [OF g0 s0 z0, of True]
  from a b show ?thesis by simp
qed

text \<open>
  The claim asks for a history entry in both cases.  A run whose search finds nothing and a
  run whose only article is known both return \<open>True\<close> and leave the history as it was.
\<close>

lemma run_env0:
  "fst (run_search env0 w0 None None None dry) = Inr True
   \<and> db (snd (run_search env0 w0 None None None dry)) = db w0"
  by (simp add: run_search_def cli_interests_def generate_query_def chat_create_def exn_bind_def
      search_and_fetch_def search_def search_try_def search_url_def make_request_def http_fetch_def
      fetch_articles_def json_truthy_def process_and_report_def env0_def w0_def)

lemma run_known:
  "fst (run_search env_full w_known None None None dry) = Inr True
   \<and> db (snd (run_search env_full w_known None None None dry)) = db w_known"
proof -
  let ?w1 = "w_known\<lparr>llm_log := llm_log w_known @ [query_request env_full (u ''AI'')]\<rparr>"
  let ?q = "combine_queries [u ''(AI)[Title/Abstract]'']"
  obtain r w2 where s: "search_and_fetch env_full ?w1 ?q (Some 7) (Some 100) = (r, w2)"
    by (cases "search_and_fetch env_full ?w1 ?q (Some 7) (Some 100)")
  from saf_full [of ?w1 ?q] s have r: "r = Inr [art1]" by simp
  from search_and_fetch_frame [of ?w1 env_full ?q "Some 7" "Some 100"] s
  have d: "db w2 = db w_known" by (simp add: only_http_def)
  have k: "\<forall>a \<in> set [art1]. PubMedArticle.pmid a \<in> dom (articles (db w2))"
    by (simp add: d w_known_def art1_def)
  have f: "\<forall>k. \<not> db_raises env_full k" by (simp add: env_full_def env_ok_def env0_def)
  obtain r' w3 where p: "process_articles env_full dry w2 [art1] [] = (r', w3)"
    by (cases "process_articles env_full dry w2 [art1] []")
  from process_articles_known [OF k f, of dry "[]"] d p
  have "r' = Inr []" "db w3 = db w_known" by (simp_all del: process_articles.simps)
  with p have "fst (process_and_report env_full w2 [art1] dry) = Inr True
      \<and> db (snd (process_and_report env_full w2 [art1] dry)) = db w_known"
    by (simp add: process_and_report_def del: process_articles.simps)
  then show ?thesis
    using s r by (simp add: run_search_def gq_full) (simp add: env_full_def env_ok_def env0_def)
qed

lemma saf_env0: "fst (search_and_fetch env0 w q (Some 7) (Some 100)) = Inr []"
  by (simp add: search_and_fetch_def search_def search_try_def search_url_def make_request_def
      http_fetch_def exn_bind_def fetch_articles_def json_truthy_def env0_def)

theorem no_history_counterexample:
  "fst (search_and_fetch env0 (w0\<lparr>llm_log := [query_request env0 (u ''AI'')]\<rparr>)
          (u ''(AI)[Title/Abstract]'') (Some 7) (Some 100)) = Inr []
   \<and> fst (run_search env0 w0 None None None False) = Inr True
   \<and> search_history (db (snd (run_search env0 w0 None None None False))) = search_history (db w0)
   \<and> fst (search_and_fetch env_full (w_known\<lparr>llm_log := [query_request env_full (u ''AI'')]\<rparr>)
          (u ''(AI)[Title/Abstract]'') (Some 7) (Some 100)) = Inr [art1]
   \<and> articles (db w_known) (PubMedArticle.pmid art1) = Some row1
   \<and> fst (run_search env_full w_known None None None False) = Inr True
   \<and> search_history (db (snd (run_search env_full w_known None None None False)))
       = search_history (db w_known)"
proof -
  have "articles (db w_known) (PubMedArticle.pmid art1) = Some row1"
    by (simp add: w_known_def art1_def)
  then show ?thesis
    using run_env0 [of False] run_known [of False] saf_env0 saf_full by simp
qed

end
